theory Spec2Isabelle
  imports Main "HOL-Library.AList"
begin

section \<open>Python values used by the subscriber\<close>

text \<open>
  The development embeds \<^verbatim>\<open>WebsocketMultiAccountSubscriber\<close>
  (\<^verbatim>\<open>driftpy/accounts/ws/multi_account_subscriber.py\<close>).

  A \<^verbatim>\<open>Pubkey\<close> is compared by value and \<^verbatim>\<open>str(pubkey)\<close> is
  its base58 text, which determines the key: the model represents a key by that text.
  Raw account bytes are a list of 8-bit characters.
\<close>

datatype Pubkey = Pubkey (str: string)

type_synonym bytes = string

text \<open>\<^verbatim>\<open>DataAndSlot(slot, data)\<close>: Python's \<^verbatim>\<open>int\<close> is unbounded.\<close>

record 'v DataAndSlot =
  slot :: int
  data :: 'v

text \<open>
  A Python \<^verbatim>\<open>dict\<close> keeps insertion order, and the subscriber iterates over
  \<^verbatim>\<open>data_map.keys()\<close> and \<^verbatim>\<open>subscription_map.keys()\<close>; a dict is
  therefore an association list with \<^const>\<open>AList.update\<close> (assignment keeps the
  position of an existing key and appends a new one) and \<^const>\<open>AList.delete\<close>.
\<close>

type_synonym ('k, 'v) dict = "('k \<times> 'v) list"

definition dict_get :: "('k, 'v) dict \<Rightarrow> 'k \<Rightarrow> 'v option" where
  "dict_get d k = map_of d k"

definition dict_has :: "('k, 'v) dict \<Rightarrow> 'k \<Rightarrow> bool" where
  "dict_has d k = (map_of d k \<noteq> None)"

definition dict_set :: "'k \<Rightarrow> 'v \<Rightarrow> ('k, 'v) dict \<Rightarrow> ('k, 'v) dict" where
  "dict_set k v d = AList.update k v d"

definition dict_del :: "'k \<Rightarrow> ('k, 'v) dict \<Rightarrow> ('k, 'v) dict" where
  "dict_del k d = AList.delete k d"

definition dict_keys :: "('k, 'v) dict \<Rightarrow> 'k list" where
  "dict_keys d = map fst d"

text \<open>
  \<^verbatim>\<open>d.get(k)\<close> on a \<^verbatim>\<open>Dict[str, Optional[T]]\<close>: a missing key and a key
  bound to \<^verbatim>\<open>None\<close> both read as \<^verbatim>\<open>None\<close>.
\<close>

definition get_opt :: "('k, 'v option) dict \<Rightarrow> 'k \<Rightarrow> 'v option" where
  "get_opt d k = (case map_of d k of None \<Rightarrow> None | Some v \<Rightarrow> v)"

text \<open>
  A Python \<^verbatim>\<open>set\<close> of strings is a duplicate-free list that holds its elements.
  Python iterates over a set in hash order, so the order of the list is not the order of an
  iteration. Where the result of the code depends on that order (\<^verbatim>\<open>get_data\<close> on an
  address with several synthetic keys) the choice is a parameter. The loops over a set serve
  its keys one by one; there the order of the iteration shows only in the position of the
  entries that a loop adds to a dict.
\<close>

definition set_add :: "'a \<Rightarrow> 'a list \<Rightarrow> 'a list" where
  "set_add x xs = (if x \<in> set xs then xs else xs @ [x])"

definition set_discard :: "'a \<Rightarrow> 'a list \<Rightarrow> 'a list" where
  "set_discard x xs = removeAll x xs"

section \<open>What the subscriber does to the outside\<close>

text \<open>
  Every method is returned with the list of what it does besides changing its fields: the
  frames it sends, the calls it makes on the socket and the task, and what it prints or
  logs. \<open>SendSubscribe\<close> is an \<^verbatim>\<open>accountSubscribe\<close> frame with its request id
  and address.

  There is no effect for \<^verbatim>\<open>self.ws.account_unsubscribe\<close> (lines 177 and 648). The only
  object the class ever stores in \<^verbatim>\<open>self.ws\<close> is the raw connection that
  \<^verbatim>\<open>websockets.connect\<close> yields at lines 210-213 (\<^verbatim>\<open>typing.cast\<close> does nothing
  at run time), and that object has no method of this name: the call raises
  \<^verbatim>\<open>AttributeError\<close>, which the handlers at lines 178 and 649 swallow, and nothing is
  sent.
\<close>

datatype log_event =
    ErrorFetchingInitialData Pubkey
  | ErrorSubscribing Pubkey
  | InvalidRequestIdFormat string
  | SubscriptionConfirmed int int Pubkey
  | FallbackPop0
  | NoPendingSubscriptions
  | SubscriptionIdNotFound
  | MultipleOracleIds
  | ConnectionClosedDuringRecv
  | ConnectionClosedDuringLoop
  | ConnectionClosedReconnecting
  | ErrorInMessageLoop
  | ErrorInConnection
  | CancelledInRecv
  | CancelledInLoop
  | CancelledInConnection
  | CancelledTask

datatype effect =
    SendSubscribe int Pubkey
  | CloseWs
  | CancelTask
  | Sleep
  | Print log_event
  | LogWarning log_event
  | LogInfo log_event
  | LogError log_event
  | LogDebug log_event

section \<open>The subscriber's fields\<close>

text \<open>
  \<^verbatim>\<open>ws\<close> is the socket of the current connection (its number) or \<^verbatim>\<open>None\<close>;
  \<^verbatim>\<open>task\<close> records whether the background task is set. A decoder returns
  \<^verbatim>\<open>None\<close> where the Python callable raises.
\<close>

record 'v state =
  ws :: "nat option"
  task :: bool
  subscription_map :: "(int, Pubkey) dict"
  pubkey_to_subscription :: "(Pubkey, int) dict"
  decode_map :: "(string, bytes \<Rightarrow> 'v option) dict"
  data_map :: "(string, 'v DataAndSlot option) dict"
  initial_data_map :: "(string, 'v DataAndSlot option) dict"
  pending_subscriptions :: "Pubkey list"
  pubkey_to_oracle_ids :: "(Pubkey, string list) dict"
  oracle_id_to_subscription :: "(string, int) dict"
  request_id_counter :: int
  inflight_subscribes :: "(int, Pubkey \<times> string option) dict"
  running :: bool

text \<open>The state \<^verbatim>\<open>__init__\<close> builds.\<close>

definition init :: "'v state" where
  "init = \<lparr> ws = None, task = False, subscription_map = [], pubkey_to_subscription = [],
     decode_map = [], data_map = [], initial_data_map = [], pending_subscriptions = [],
     pubkey_to_oracle_ids = [], oracle_id_to_subscription = [], request_id_counter = 0,
     inflight_subscribes = [], running = False \<rparr>"

section \<open>The cache: \<^verbatim>\<open>_update_data\<close> and \<^verbatim>\<open>get_data\<close>\<close>

text \<open>
  \<^verbatim>\<open>_update_data(key, new_data)\<close>: nothing for \<^verbatim>\<open>None\<close>; otherwise the
  entry is overwritten when nothing is cached or the new slot is not smaller.
\<close>

definition update_data :: "string \<Rightarrow> 'v DataAndSlot option \<Rightarrow> 'v state \<Rightarrow> 'v state" where
  "update_data key new_data s =
     (case new_data of
        None \<Rightarrow> s
      | Some nd \<Rightarrow>
          (case get_opt (data_map s) key of
             None \<Rightarrow> s\<lparr>data_map := dict_set key (Some nd) (data_map s)\<rparr>
           | Some current_data \<Rightarrow>
               if slot nd \<ge> slot current_data
               then s\<lparr>data_map := dict_set key (Some nd) (data_map s)\<rparr>
               else s))"

text \<open>
  \<^verbatim>\<open>get_data(key)\<close> with a \<^verbatim>\<open>Pubkey\<close> (\<open>Inl\<close>) or a string (\<open>Inr\<close>).
  The method is returned with the state it leaves and what it prints. For an address with
  two or more synthetic keys the method reads \<^verbatim>\<open>list(oracle_ids)[0]\<close>, which
  depends on the order in which the interpreter iterates over the set: \<open>first_of\<close> is
  that choice.
\<close>

definition get_data ::
  "(string list \<Rightarrow> string) \<Rightarrow> Pubkey + string \<Rightarrow> 'v state
     \<Rightarrow> 'v DataAndSlot option \<times> effect list \<times> 'v state" where
  "get_data first_of key s =
     (case key of
        Inr k \<Rightarrow> (get_opt (data_map s) k, [], s)
      | Inl pk \<Rightarrow>
          (let oracle_ids = (case dict_get (pubkey_to_oracle_ids s) pk of
                               None \<Rightarrow> [] | Some ids \<Rightarrow> ids)
           in case oracle_ids of
                [] \<Rightarrow> (get_opt (data_map s) (str pk), [], s)
              | [oid] \<Rightarrow> (get_opt (data_map s) oid, [], s)
              | oid # rest \<Rightarrow>
                  (get_opt (data_map s) (first_of oracle_ids), [Print MultipleOracleIds], s)))"

section \<open>\<^verbatim>\<open>add_account\<close>\<close>

text \<open>What an awaited call of a collaborator does: it raises or it returns a value.\<close>

datatype 'a outcome = Raises | Returns 'a

datatype exn = KeyError | CancelledError | ConnectionClosed | OtherException

text \<open>The internal key: the synthetic key when one is given, else \<^verbatim>\<open>str(pubkey)\<close>.\<close>

definition key_of :: "Pubkey \<Rightarrow> string option \<Rightarrow> string" where
  "key_of pubkey oracle_id = (case oracle_id of Some oid \<Rightarrow> oid | None \<Rightarrow> str pubkey)"

text \<open>\<^verbatim>\<open>self.pubkey_to_oracle_ids.get(pubkey, set())\<close>\<close>

definition oracle_ids_of :: "'v state \<Rightarrow> Pubkey \<Rightarrow> string list" where
  "oracle_ids_of s pubkey =
     (case dict_get (pubkey_to_oracle_ids s) pubkey of None \<Rightarrow> [] | Some ids \<Rightarrow> ids)"

text \<open>
  Lines 70-72 and 90-92: create the set of the address when it is missing, then add the
  synthetic key to it.
\<close>

definition add_oracle_id :: "Pubkey \<Rightarrow> string \<Rightarrow> 'v state \<Rightarrow> 'v state" where
  "add_oracle_id pubkey oid s =
     s\<lparr>pubkey_to_oracle_ids :=
         dict_set pubkey (set_add oid (oracle_ids_of s pubkey)) (pubkey_to_oracle_ids s)\<rparr>"

text \<open>
  Lines 65-92, the first block under the lock. The result is \<open>None\<close> when the method
  returns at line 79, and otherwise the value the local \<^verbatim>\<open>initial_data\<close> has at
  line 95. \<^verbatim>\<open>decode_fn\<close> is the callable chosen at line 57.
\<close>

definition add_account_register ::
  "Pubkey \<Rightarrow> (bytes \<Rightarrow> 'v option) \<Rightarrow> 'v DataAndSlot option \<Rightarrow> string option \<Rightarrow> 'v state
     \<Rightarrow> 'v DataAndSlot option option \<times> 'v state" where
  "add_account_register pubkey decode_fn initial_data oracle_id s =
     (let key = key_of pubkey oracle_id in
      case dict_get (pubkey_to_subscription s) pubkey of
        Some subscription_id \<Rightarrow>
          (case oracle_id of
             None \<Rightarrow> (None, s)
           | Some oid \<Rightarrow>
               let s1 = add_oracle_id pubkey oid s;
                   s2 = s1\<lparr>oracle_id_to_subscription :=
                             dict_set oid subscription_id (oracle_id_to_subscription s1)\<rparr>;
                   s3 = s2\<lparr>decode_map := dict_set key decode_fn (decode_map s2)\<rparr>;
                   s4 = (case initial_data of
                           None \<Rightarrow> s3
                         | Some d \<Rightarrow> s3\<lparr>data_map := dict_set key (Some d) (data_map s3)\<rparr>)
               in (None, s4))
      | None \<Rightarrow>
          let s1 = s\<lparr>decode_map := dict_set key decode_fn (decode_map s)\<rparr>;
              s2 = (case initial_data of
                      None \<Rightarrow> s1
                    | Some d \<Rightarrow> s1\<lparr>data_map := dict_set key (Some d) (data_map s1)\<rparr>);
              initial_data' = (case initial_data of
                                 None \<Rightarrow> get_opt (data_map s1) key
                               | Some d \<Rightarrow> Some d);
              s3 = (case oracle_id of None \<Rightarrow> s2 | Some oid \<Rightarrow> add_oracle_id pubkey oid s2)
          in (Some initial_data', s3))"

text \<open>
  Lines 94-104: the snapshot fetch, made only when \<^verbatim>\<open>initial_data\<close> is still
  \<^verbatim>\<open>None\<close>. \<^verbatim>\<open>get_account_data_and_slot\<close> is a collaborator outside the
  class: \<open>fetch\<close> is what its call does. The flag tells whether the method goes on.
\<close>

definition add_account_fetch ::
  "Pubkey \<Rightarrow> string \<Rightarrow> 'v DataAndSlot option \<Rightarrow> 'v DataAndSlot option outcome \<Rightarrow> 'v state
     \<Rightarrow> bool \<times> effect list \<times> 'v state" where
  "add_account_fetch pubkey key initial_data fetch s =
     (case initial_data of
        Some d \<Rightarrow> (True, [], s)
      | None \<Rightarrow>
          (case fetch of
             Returns d \<Rightarrow> (True, [], s\<lparr>data_map := dict_set key d (data_map s)\<rparr>)
           | Raises \<Rightarrow> (False, [Print (ErrorFetchingInitialData pubkey)], s)))"

text \<open>
  Lines 106-139: the subscribe request, made only with a socket. \<open>send_ok\<close> tells
  whether \<^verbatim>\<open>self.ws.send\<close> returns; when it raises, the in-flight entry is removed.
\<close>

definition add_account_subscribe ::
  "Pubkey \<Rightarrow> string option \<Rightarrow> bool \<Rightarrow> 'v state \<Rightarrow> effect list \<times> 'v state" where
  "add_account_subscribe pubkey oracle_id send_ok s =
     (if ws s = None then ([], s)
      else if dict_has (pubkey_to_subscription s) pubkey then ([], s)
      else
        let request_id = request_id_counter s + 1;
            s1 = s\<lparr>request_id_counter := request_id,
                   inflight_subscribes :=
                     dict_set request_id (pubkey, oracle_id) (inflight_subscribes s)\<rparr>
        in if send_ok then ([SendSubscribe request_id pubkey], s1)
           else ([Print (ErrorSubscribing pubkey)],
                 s1\<lparr>inflight_subscribes := dict_del request_id (inflight_subscribes s1)\<rparr>))"

text \<open>
  \<^verbatim>\<open>add_account\<close>, run without another coroutine in between. Every exception of
  the body is caught by one of its two handlers, so the method always returns.
\<close>

definition add_account ::
  "Pubkey \<Rightarrow> (bytes \<Rightarrow> 'v option) \<Rightarrow> 'v DataAndSlot option \<Rightarrow> string option
     \<Rightarrow> 'v DataAndSlot option outcome \<Rightarrow> bool \<Rightarrow> 'v state \<Rightarrow> effect list \<times> 'v state" where
  "add_account pubkey decode_fn initial_data oracle_id fetch send_ok s =
     (case add_account_register pubkey decode_fn initial_data oracle_id s of
        (None, s1) \<Rightarrow> ([], s1)
      | (Some initial_data', s1) \<Rightarrow>
          (case add_account_fetch pubkey (key_of pubkey oracle_id) initial_data' fetch s1 of
             (False, es, s2) \<Rightarrow> (es, s2)
           | (True, es, s2) \<Rightarrow>
               (case add_account_subscribe pubkey oracle_id send_ok s2 of
                  (es', s3) \<Rightarrow> (es @ es', s3))))"

section \<open>\<^verbatim>\<open>remove_account\<close>\<close>

text \<open>Lines 147-152 and 161-166: the three guarded deletions for one synthetic key.\<close>

definition forget_oracle_id :: "string \<Rightarrow> 'v state \<Rightarrow> 'v state" where
  "forget_oracle_id oid s =
     s\<lparr>oracle_id_to_subscription := dict_del oid (oracle_id_to_subscription s),
       decode_map := dict_del oid (decode_map s),
       data_map := dict_del oid (data_map s)\<rparr>"

text \<open>
  Lines 169-191. The call at line 177 raises \<^verbatim>\<open>AttributeError\<close> on the raw
  connection and the handler at line 178 swallows it, so the block of lines 175-179 does
  nothing. The deletion at line 181 is not guarded and raises \<^verbatim>\<open>KeyError\<close> for a
  missing id.
\<close>

definition remove_account_teardown ::
  "Pubkey \<Rightarrow> 'v state \<Rightarrow> exn option \<times> effect list \<times> 'v state" where
  "remove_account_teardown pubkey s =
     (case dict_get (pubkey_to_subscription s) pubkey of
        None \<Rightarrow> (None, [], s)
      | Some subscription_id \<Rightarrow>
          if \<not> dict_has (subscription_map s) subscription_id then (Some KeyError, [], s)
          else (None, [],
                s\<lparr>subscription_map := dict_del subscription_id (subscription_map s),
                  pubkey_to_subscription := dict_del pubkey (pubkey_to_subscription s),
                  decode_map := dict_del (str pubkey) (decode_map s),
                  data_map := dict_del (str pubkey) (data_map s),
                  initial_data_map := dict_del (str pubkey) (initial_data_map s)\<rparr>))"

text \<open>Lines 141-167, then the teardown unless the method returns at line 156.\<close>

definition remove_account ::
  "Pubkey \<Rightarrow> string option \<Rightarrow> 'v state \<Rightarrow> exn option \<times> effect list \<times> 'v state" where
  "remove_account pubkey oracle_id s =
     (case oracle_id of
        Some oid \<Rightarrow>
          let s1 = (case dict_get (pubkey_to_oracle_ids s) pubkey of
                      None \<Rightarrow> s
                    | Some ids \<Rightarrow>
                        forget_oracle_id oid
                          (s\<lparr>pubkey_to_oracle_ids :=
                               dict_set pubkey (set_discard oid ids) (pubkey_to_oracle_ids s)\<rparr>))
          in if oracle_ids_of s1 pubkey \<noteq> [] then (None, [], s1)
             else remove_account_teardown pubkey s1
      | None \<Rightarrow>
          let s1 = (case dict_get (pubkey_to_oracle_ids s) pubkey of
                      None \<Rightarrow> s
                    | Some ids \<Rightarrow>
                        (fold forget_oracle_id ids s)
                          \<lparr>pubkey_to_oracle_ids := dict_del pubkey (pubkey_to_oracle_ids s)\<rparr>)
          in remove_account_teardown pubkey s1)"

section \<open>Frames\<close>

text \<open>
  A frame after \<^verbatim>\<open>json.loads\<close> and \<^verbatim>\<open>FakeMsg\<close> (lines 283-329), as the
  dispatch at lines 367-414 sees it: a confirmation when \<^verbatim>\<open>result\<close> is an integer,
  with the \<^verbatim>\<open>id\<close> field (absent, an integer or a string); a notification when
  \<^verbatim>\<open>result.value\<close> is set, with the \<^verbatim>\<open>subscription\<close> field, the slot of the
  context (absent when \<^verbatim>\<open>int(result.context.slot)\<close> raises) and the decoded base64
  payload; any other frame takes neither branch.
\<close>

datatype msg_id = IdInt int | IdStr string

datatype msg =
    Confirmation int "msg_id option"
  | Notification "int option" "int option" bytes
  | OtherMsg

text \<open>
  Lines 373-382. \<open>to_int\<close> is Python's \<^verbatim>\<open>int\<close> on a string, \<open>None\<close> where it
  raises \<^verbatim>\<open>ValueError\<close>.
\<close>

definition request_id_of ::
  "(string \<Rightarrow> int option) \<Rightarrow> msg_id option \<Rightarrow> int option \<times> effect list" where
  "request_id_of to_int mid =
     (case mid of
        None \<Rightarrow> (None, [])
      | Some (IdInt i) \<Rightarrow> (Some i, [])
      | Some (IdStr t) \<Rightarrow>
          (case to_int t of
             Some i \<Rightarrow> (Some i, [])
           | None \<Rightarrow> (None, [LogWarning (InvalidRequestIdFormat t)])))"

text \<open>Lines 384-411: a confirmation with subscription id \<open>result\<close>.\<close>

definition confirm ::
  "(string \<Rightarrow> int option) \<Rightarrow> int \<Rightarrow> msg_id option \<Rightarrow> 'v state \<Rightarrow> effect list \<times> 'v state" where
  "confirm to_int result mid s =
     (case request_id_of to_int mid of
        (request_id, es) \<Rightarrow>
          (case (case request_id of
                   None \<Rightarrow> None
                 | Some r \<Rightarrow>
                     (case dict_get (inflight_subscribes s) r of
                        None \<Rightarrow> None
                      | Some entry \<Rightarrow> Some (r, entry))) of
             Some (r, pubkey, oracle_id) \<Rightarrow>
               (es @ [LogDebug (SubscriptionConfirmed r result pubkey)],
                s\<lparr>inflight_subscribes := dict_del r (inflight_subscribes s),
                  subscription_map := dict_set result pubkey (subscription_map s),
                  pubkey_to_subscription := dict_set pubkey result (pubkey_to_subscription s),
                  oracle_id_to_subscription :=
                    fold (\<lambda>oid. dict_set oid result) (oracle_ids_of s pubkey)
                      (oracle_id_to_subscription s)\<rparr>)
           | None \<Rightarrow>
               (case pending_subscriptions s of
                  pubkey # rest \<Rightarrow>
                    (es @ [LogWarning FallbackPop0],
                     s\<lparr>pending_subscriptions := rest,
                       subscription_map := dict_set result pubkey (subscription_map s),
                       pubkey_to_subscription :=
                         dict_set pubkey result (pubkey_to_subscription s)\<rparr>)
                | [] \<Rightarrow> (es @ [LogWarning NoPendingSubscriptions], s))))"

text \<open>
  Lines 437-446 and 450-460, for one key: without a decoder nothing happens; a missing slot
  or a decoder that raises is caught and the key is skipped; otherwise the decoded value is
  merged by \<^verbatim>\<open>_update_data\<close>.
\<close>

definition decode_and_store :: "string \<Rightarrow> int option \<Rightarrow> bytes \<Rightarrow> 'v state \<Rightarrow> 'v state" where
  "decode_and_store key slot_field account_bytes s =
     (case dict_get (decode_map s) key of
        None \<Rightarrow> s
      | Some decode_fn \<Rightarrow>
          (case slot_field of
             None \<Rightarrow> s
           | Some sl \<Rightarrow>
               (case decode_fn account_bytes of
                  None \<Rightarrow> s
                | Some decoded_data \<Rightarrow>
                    update_data key (Some \<lparr>slot = sl, data = decoded_data\<rparr>) s)))"

text \<open>Lines 414-460: a notification.\<close>

definition notify ::
  "int option \<Rightarrow> int option \<Rightarrow> bytes \<Rightarrow> 'v state \<Rightarrow> effect list \<times> 'v state" where
  "notify subscription_id slot_field account_bytes s =
     (case (case subscription_id of
              None \<Rightarrow> None
            | Some sid \<Rightarrow> dict_get (subscription_map s) sid) of
        None \<Rightarrow> ([LogWarning SubscriptionIdNotFound], s)
      | Some pubkey \<Rightarrow>
          (let oracle_ids = oracle_ids_of s pubkey in
           if oracle_ids \<noteq> []
           then ([], fold (\<lambda>oracle_id. decode_and_store oracle_id slot_field account_bytes)
                       oracle_ids s)
           else ([], decode_and_store (str pubkey) slot_field account_bytes s)))"

definition process_message ::
  "(string \<Rightarrow> int option) \<Rightarrow> msg \<Rightarrow> 'v state \<Rightarrow> effect list \<times> 'v state" where
  "process_message to_int m s =
     (case m of
        Confirmation result mid \<Rightarrow> confirm to_int result mid s
      | Notification subscription_id slot_field account_bytes \<Rightarrow>
          notify subscription_id slot_field account_bytes s
      | OtherMsg \<Rightarrow> ([], s))"

section \<open>The connection loop of \<^verbatim>\<open>_subscribe_ws\<close>\<close>

text \<open>
  The three \<^verbatim>\<open>clear()\<close> calls that the exception handlers make under the lock
  (lines 472-474, 485-487, 507-509, 522-524 and 543-545).
\<close>

definition clear_connection_maps :: "'v state \<Rightarrow> 'v state" where
  "clear_connection_maps s =
     s\<lparr>subscription_map := [], pubkey_to_subscription := [], inflight_subscribes := []\<rparr>"

text \<open>How a loop body ends: the loop goes on, it is left, or an exception leaves it.\<close>

datatype ctl = Continue | Break | Raise exn

subsection \<open>The subscriptions sent on entering a connection\<close>

text \<open>
  Lines 224-236: the address a cache key stands for. A key with a dash whose last segment
  is all digits is read as \<^verbatim>\<open>pubkey-number\<close>. \<open>from_string\<close> is
  \<^verbatim>\<open>Pubkey.from_string\<close>, \<open>None\<close> where it raises, and \<open>isdigit\<close> is
  Python's \<^verbatim>\<open>str.isdigit\<close>.
\<close>

definition last_segment :: "string \<Rightarrow> string" where
  "last_segment key = rev (takeWhile (\<lambda>c. c \<noteq> CHR ''-'') (rev key))"

definition before_last_dash :: "string \<Rightarrow> string" where
  "before_last_dash key = rev (drop 1 (dropWhile (\<lambda>c. c \<noteq> CHR ''-'') (rev key)))"

definition key_pubkey ::
  "(string \<Rightarrow> Pubkey option) \<Rightarrow> (string \<Rightarrow> bool) \<Rightarrow> string \<Rightarrow> Pubkey option" where
  "key_pubkey from_string isdigit key =
     (if CHR ''-'' \<in> set key \<and> isdigit (last_segment key)
      then from_string (before_last_dash key)
      else from_string key)"

text \<open>Lines 220-241: one entry per address that is neither seen before nor subscribed.\<close>

fun initial_accounts ::
  "(string \<Rightarrow> Pubkey option) \<Rightarrow> (string \<Rightarrow> bool) \<Rightarrow> (Pubkey, int) dict \<Rightarrow> string list
     \<Rightarrow> Pubkey list \<Rightarrow> (Pubkey \<times> string) list" where
  "initial_accounts from_string isdigit subscribed [] seen_pubkeys = []"
| "initial_accounts from_string isdigit subscribed (key # keys) seen_pubkeys =
     (case key_pubkey from_string isdigit key of
        None \<Rightarrow> initial_accounts from_string isdigit subscribed keys seen_pubkeys
      | Some pubkey \<Rightarrow>
          if pubkey \<notin> set seen_pubkeys \<and> \<not> dict_has subscribed pubkey
          then (pubkey, key)
                 # initial_accounts from_string isdigit subscribed keys (pubkey # seen_pubkeys)
          else initial_accounts from_string isdigit subscribed keys seen_pubkeys)"

text \<open>
  Lines 246-271, for one address: the next request id, the in-flight entry, the frame; the
  entry is removed again when the send raises. \<open>send_ok\<close> tells for a request id
  whether its send returns.
\<close>

definition subscribe_one ::
  "(int \<Rightarrow> bool) \<Rightarrow> Pubkey \<Rightarrow> string option \<Rightarrow> 'v state \<Rightarrow> effect list \<times> 'v state" where
  "subscribe_one send_ok pubkey oracle_id s =
     (let request_id = request_id_counter s + 1;
          s1 = s\<lparr>request_id_counter := request_id,
                 inflight_subscribes :=
                   dict_set request_id (pubkey, oracle_id) (inflight_subscribes s)\<rparr>
      in if send_ok request_id then ([SendSubscribe request_id pubkey], s1)
         else ([Print (ErrorSubscribing pubkey)],
               s1\<lparr>inflight_subscribes := dict_del request_id (inflight_subscribes s1)\<rparr>))"

fun subscribe_all ::
  "(int \<Rightarrow> bool) \<Rightarrow> (Pubkey \<times> string) list \<Rightarrow> 'v state \<Rightarrow> effect list \<times> 'v state" where
  "subscribe_all send_ok [] s = ([], s)"
| "subscribe_all send_ok ((pubkey, key) # rest) s =
     (case subscribe_one send_ok pubkey (if key \<noteq> str pubkey then Some key else None) s of
        (es, s1) \<Rightarrow>
          (case subscribe_all send_ok rest s1 of (es', s2) \<Rightarrow> (es @ es', s2)))"

text \<open>Lines 213-271: the socket \<open>n\<close> is set, then the initial subscriptions are sent.\<close>

definition on_connected ::
  "(string \<Rightarrow> Pubkey option) \<Rightarrow> (string \<Rightarrow> bool) \<Rightarrow> (int \<Rightarrow> bool) \<Rightarrow> nat \<Rightarrow> 'v state
     \<Rightarrow> ctl \<times> effect list \<times> 'v state" where
  "on_connected from_string isdigit send_ok n s =
     (let s0 = s\<lparr>ws := Some n\<rparr> in
      if \<not> running s0 then (Break, [], s0)
      else
        case subscribe_all send_ok
               (initial_accounts from_string isdigit (pubkey_to_subscription s0)
                  (dict_keys (data_map s0)) []) s0 of
          (es, s1) \<Rightarrow> (Continue, es, s1))"

subsection \<open>The read loop\<close>

text \<open>
  What \<^verbatim>\<open>await asyncio.wait_for(raw_ws.recv(), timeout=1.0)\<close> and the parse after
  it do in one iteration (lines 276-356).
\<close>

datatype recv =
    Received msg
  | Unparsable
  | RecvKeyError
  | RecvTimeout
  | RecvCancelled
  | RecvConnectionClosed
  | RecvOtherError

text \<open>
  One iteration of the inner \<^verbatim>\<open>while self._running\<close> (lines 276-464). The handler
  for \<^verbatim>\<open>ConnectionClosed\<close> at lines 344-347 logs and leaves the loop with
  \<^verbatim>\<open>break\<close>.
\<close>

definition read_iteration ::
  "(string \<Rightarrow> int option) \<Rightarrow> recv \<Rightarrow> 'v state \<Rightarrow> ctl \<times> effect list \<times> 'v state" where
  "read_iteration to_int r s =
     (case r of
        Received m \<Rightarrow>
          if \<not> running s then (Break, [], s)
          else (case process_message to_int m s of (es, s') \<Rightarrow> (Continue, es, s'))
      | Unparsable \<Rightarrow> (Continue, [LogDebug ErrorInMessageLoop], s)
      | RecvKeyError \<Rightarrow> (Continue, [LogDebug ErrorInMessageLoop], s)
      | RecvTimeout \<Rightarrow> (Continue, [], s)
      | RecvCancelled \<Rightarrow> (Raise CancelledError, [LogInfo CancelledInRecv], s)
      | RecvConnectionClosed \<Rightarrow> (Break, [LogInfo ConnectionClosedDuringRecv], s)
      | RecvOtherError \<Rightarrow> (Continue, [LogDebug ErrorInMessageLoop], s))"

text \<open>
  The inner loop over the receive events of a connection. \<open>Continue\<close> for an exhausted
  list says that the loop is still reading.
\<close>

fun message_loop ::
  "(string \<Rightarrow> int option) \<Rightarrow> recv list \<Rightarrow> 'v state \<Rightarrow> ctl \<times> effect list \<times> 'v state" where
  "message_loop to_int [] s = (Continue, [], s)"
| "message_loop to_int (r # rs) s =
     (if \<not> running s then (Break, [], s)
      else
        case read_iteration to_int r s of
          (Continue, es, s1) \<Rightarrow>
            (case message_loop to_int rs s1 of (c, es', s2) \<Rightarrow> (c, es @ es', s2))
        | (c, es, s1) \<Rightarrow> (c, es, s1))"

subsection \<open>The exception handlers\<close>

text \<open>
  Lines 465-479, around the inner loop. The result steers the outer
  \<^verbatim>\<open>while self._running\<close> of line 206: the \<^verbatim>\<open>break\<close> of line 475 and the
  \<^verbatim>\<open>continue\<close> of line 479 are statements of that loop.
\<close>

definition message_loop_except :: "exn \<Rightarrow> 'v state \<Rightarrow> ctl \<times> effect list \<times> 'v state" where
  "message_loop_except e s =
     (case e of
        CancelledError \<Rightarrow> (Raise CancelledError, [LogInfo CancelledInLoop], s)
      | ConnectionClosed \<Rightarrow>
          (Break, [LogInfo ConnectionClosedDuringLoop], clear_connection_maps (s\<lparr>ws := None\<rparr>))
      | _ \<Rightarrow> (Continue, [LogError ErrorInMessageLoop], s))"

text \<open>Lines 481-526, around \<^verbatim>\<open>async with websockets.connect(...)\<close>.\<close>

definition connection_except :: "exn \<Rightarrow> 'v state \<Rightarrow> ctl \<times> effect list \<times> 'v state" where
  "connection_except e s =
     (case e of
        ConnectionClosed \<Rightarrow>
          (Continue, [LogInfo ConnectionClosedReconnecting, Sleep],
           clear_connection_maps (s\<lparr>ws := None\<rparr>))
      | CancelledError \<Rightarrow>
          (Raise CancelledError,
           LogInfo CancelledInConnection # (if ws s \<noteq> None then [CloseWs] else []),
           clear_connection_maps (s\<lparr>running := False, ws := None\<rparr>))
      | _ \<Rightarrow>
          (Continue, [LogError ErrorInConnection, Sleep],
           clear_connection_maps (s\<lparr>ws := None\<rparr>)))"

text \<open>Lines 527-546, the outermost handler, for \<^verbatim>\<open>CancelledError\<close> only.\<close>

definition task_except :: "'v state \<Rightarrow> effect list \<times> 'v state" where
  "task_except s =
     (LogInfo CancelledTask # (if ws s \<noteq> None then [CloseWs] else []),
      clear_connection_maps (s\<lparr>running := False, ws := None\<rparr>))"

text \<open>
  How the inner loop is left: by \<^verbatim>\<open>break\<close> or by its condition (\<open>None\<close>), after
  which the \<^verbatim>\<open>async with\<close> block ends and the outer loop takes its next turn; or by
  an exception, which runs the handlers above from the inside out.
\<close>

definition leave_message_loop :: "exn option \<Rightarrow> 'v state \<Rightarrow> ctl \<times> effect list \<times> 'v state" where
  "leave_message_loop e s =
     (case e of
        None \<Rightarrow> (Continue, [], s)
      | Some x \<Rightarrow>
          (case message_loop_except x s of
             (Raise x', es, s1) \<Rightarrow>
               (case connection_except x' s1 of (c, es', s2) \<Rightarrow> (c, es @ es', s2))
           | (c, es, s1) \<Rightarrow> (c, es, s1)))"

text \<open>
  An exception that leaves the outer loop is a cancellation, and runs the outermost handler
  as well.
\<close>

definition after_outer :: "ctl \<times> effect list \<times> 'v state \<Rightarrow> effect list \<times> 'v state" where
  "after_outer r =
     (case r of
        (Raise e, es, s) \<Rightarrow> (case task_except s of (es', s') \<Rightarrow> (es @ es', s'))
      | (c, es, s) \<Rightarrow> (es, s))"

text \<open>
  Where the cancellation of the task takes effect: before the coroutine has run at all;
  inside the \<^verbatim>\<open>try\<close> of line 207 but outside the read loop (connecting, sending
  the initial subscriptions); in \<^verbatim>\<open>raw_ws.recv()\<close>, where the handler of lines
  341-343 logs first; in the lock of line 371 while a confirmation is processed; or in the
  \<^verbatim>\<open>asyncio.sleep\<close> of a handler of lines 481-526, from where only the outermost
  handler is left to run.
\<close>

datatype cancel_point = BeforeStart | InConnection | InRecv | InProcessing | InSleep

definition cancel_task :: "cancel_point \<Rightarrow> 'v state \<Rightarrow> effect list \<times> 'v state" where
  "cancel_task p s =
     (case p of
        BeforeStart \<Rightarrow> ([], s)
      | InConnection \<Rightarrow> after_outer (connection_except CancelledError s)
      | InRecv \<Rightarrow>
          (case after_outer (leave_message_loop (Some CancelledError) s) of
             (es, s') \<Rightarrow> (LogInfo CancelledInRecv # es, s'))
      | InProcessing \<Rightarrow> after_outer (leave_message_loop (Some CancelledError) s)
      | InSleep \<Rightarrow> task_except s)"

section \<open>\<^verbatim>\<open>unsubscribe\<close>\<close>

text \<open>
  What \<^verbatim>\<open>await asyncio.wait_for(self.task, timeout=1.0)\<close> meets: the task ends
  cancelled, after the handlers that its cancellation reaches have run; the wait times out;
  the task had returned; or the task ended with another exception, which the
  \<^verbatim>\<open>except\<close> clause of lines 640-641 does not catch.
\<close>

datatype task_end = TaskCancelled cancel_point | TaskTimedOut | TaskReturned | TaskFailed

text \<open>
  Lines 616-673. The loop of lines 646-650 calls \<^verbatim>\<open>account_unsubscribe\<close> on the raw
  connection: every call raises \<^verbatim>\<open>AttributeError\<close>, swallowed at line 649.
\<close>

definition unsubscribe :: "task_end \<Rightarrow> 'v state \<Rightarrow> exn option \<times> effect list \<times> 'v state" where
  "unsubscribe te s =
     (let s1 = s\<lparr>running := False\<rparr>;
          es1 = (if task s1 then [CancelTask] else []);
          es2 = (if ws s1 \<noteq> None then [CloseWs] else [])
      in if task s1 \<and> te = TaskFailed then (Some OtherException, es1 @ es2, s1)
         else
           case (if task s1
                 then (case te of TaskCancelled p \<Rightarrow> cancel_task p s1 | _ \<Rightarrow> ([], s1))
                 else ([], s1)) of
             (es3, s2) \<Rightarrow>
               let s3 = s2\<lparr>task := False\<rparr>;
                   es4 = (if ws s3 \<noteq> None then [CloseWs] else []);
                   s4 = s3\<lparr>ws := None\<rparr>
               in (None, es1 @ es2 @ es3 @ es4,
                   s4\<lparr>subscription_map := [], pubkey_to_subscription := [],
                      decode_map := [], data_map := [], initial_data_map := [],
                      pending_subscriptions := [], pubkey_to_oracle_ids := [],
                      oracle_id_to_subscription := [], inflight_subscribes := [],
                      request_id_counter := 0\<rparr>))"

section \<open>The subscriber as a transition system\<close>

text \<open>
  \<^verbatim>\<open>subscribe\<close> (lines 193-197) creates the task once; the task sets
  \<^verbatim>\<open>_running\<close> when it starts (line 202).
\<close>

definition subscribe :: "'v state \<Rightarrow> 'v state" where
  "subscribe s = (if task s then s else s\<lparr>task := True\<rparr>)"

definition task_start :: "'v state \<Rightarrow> 'v state" where
  "task_start s = s\<lparr>running := True\<rparr>"

text \<open>
  What can happen to a subscriber, one event at a time: a call of a public method, the
  start of the task, the outcome of a connection attempt, or one iteration of the read loop.
  The methods are taken as atomic.
\<close>

datatype 'v event =
    EvAddAccount Pubkey "bytes \<Rightarrow> 'v option" "'v DataAndSlot option" "string option"
      "'v DataAndSlot option outcome" bool
  | EvRemoveAccount Pubkey "string option"
  | EvGetData "string list \<Rightarrow> string" "Pubkey + string"
  | EvSubscribe
  | EvTaskStart
  | EvConnected nat "int \<Rightarrow> bool"
  | EvConnectRaises exn
  | EvRecv recv
  | EvUnsubscribe task_end

text \<open>
  An iteration that leaves the read loop is followed by what the enclosing handlers do.
  \<open>from_string\<close>, \<open>isdigit\<close> and \<open>to_int\<close> are the library functions
  \<^verbatim>\<open>Pubkey.from_string\<close>, \<^verbatim>\<open>str.isdigit\<close> and \<^verbatim>\<open>int\<close>.
\<close>

definition step ::
  "(string \<Rightarrow> Pubkey option) \<Rightarrow> (string \<Rightarrow> bool) \<Rightarrow> (string \<Rightarrow> int option) \<Rightarrow> 'v event
     \<Rightarrow> 'v state \<Rightarrow> effect list \<times> 'v state" where
  "step from_string isdigit to_int ev s =
     (case ev of
        EvAddAccount pubkey decode_fn initial_data oracle_id fetch send_ok \<Rightarrow>
          add_account pubkey decode_fn initial_data oracle_id fetch send_ok s
      | EvRemoveAccount pubkey oracle_id \<Rightarrow>
          (case remove_account pubkey oracle_id s of (x, es, s') \<Rightarrow> (es, s'))
      | EvGetData first_of key \<Rightarrow> (case get_data first_of key s of (v, es, s') \<Rightarrow> (es, s'))
      | EvSubscribe \<Rightarrow> ([], subscribe s)
      | EvTaskStart \<Rightarrow> ([], task_start s)
      | EvConnected n send_ok \<Rightarrow>
          (case on_connected from_string isdigit send_ok n s of (c, es, s') \<Rightarrow> (es, s'))
      | EvConnectRaises e \<Rightarrow> after_outer (connection_except e s)
      | EvRecv r \<Rightarrow>
          (case read_iteration to_int r s of
             (Continue, es, s1) \<Rightarrow> (es, s1)
           | (Break, es, s1) \<Rightarrow>
               (case after_outer (leave_message_loop None s1) of (es', s2) \<Rightarrow> (es @ es', s2))
           | (Raise e, es, s1) \<Rightarrow>
               (case after_outer (leave_message_loop (Some e) s1) of
                  (es', s2) \<Rightarrow> (es @ es', s2)))
      | EvUnsubscribe te \<Rightarrow> (case unsubscribe te s of (x, es, s') \<Rightarrow> (es, s')))"

fun run ::
  "(string \<Rightarrow> Pubkey option) \<Rightarrow> (string \<Rightarrow> bool) \<Rightarrow> (string \<Rightarrow> int option) \<Rightarrow> 'v event list
     \<Rightarrow> 'v state \<Rightarrow> effect list \<times> 'v state" where
  "run from_string isdigit to_int [] s = ([], s)"
| "run from_string isdigit to_int (ev # evs) s =
     (case step from_string isdigit to_int ev s of
        (es, s1) \<Rightarrow>
          (case run from_string isdigit to_int evs s1 of (es', s2) \<Rightarrow> (es @ es', s2)))"

section \<open>Notions used in the statements\<close>

text \<open>The updates of a list, applied to one key from left to right.\<close>

definition apply_updates :: "string \<Rightarrow> 'v DataAndSlot list \<Rightarrow> 'v state \<Rightarrow> 'v state" where
  "apply_updates key us s = fold (\<lambda>u. update_data key (Some u)) us s"

definition max_slot :: "'v DataAndSlot list \<Rightarrow> int" where
  "max_slot us = Max (slot ` set us)"

definition last_with_max_slot :: "'v DataAndSlot list \<Rightarrow> 'v DataAndSlot" where
  "last_with_max_slot us = last (filter (\<lambda>u. slot u = max_slot us) us)"

text \<open>
  What the slot rule makes of one notification for one key, from the key's decoder and its
  cached value alone.
\<close>

definition merge_result ::
  "(bytes \<Rightarrow> 'v option) option \<Rightarrow> int option \<Rightarrow> bytes \<Rightarrow> 'v DataAndSlot option
     \<Rightarrow> 'v DataAndSlot option" where
  "merge_result decoder slot_field account_bytes cached =
     (case decoder of
        None \<Rightarrow> cached
      | Some decode_fn \<Rightarrow>
          (case slot_field of
             None \<Rightarrow> cached
           | Some sl \<Rightarrow>
               (case decode_fn account_bytes of
                  None \<Rightarrow> cached
                | Some v \<Rightarrow>
                    (case cached of
                       None \<Rightarrow> Some \<lparr>slot = sl, data = v\<rparr>
                     | Some cur \<Rightarrow>
                         if slot cur \<le> sl then Some \<lparr>slot = sl, data = v\<rparr> else Some cur))))"

text \<open>
  The subscription of an address is recorded as the confirmation of lines 389-390 leaves
  it: the address maps to the id, the id maps back to the address, and no other id of
  \<^verbatim>\<open>subscription_map\<close> belongs to the address.
\<close>

definition subscribed_as :: "Pubkey \<Rightarrow> int \<Rightarrow> 'v state \<Rightarrow> bool" where
  "subscribed_as pubkey sid s =
     (dict_get (pubkey_to_subscription s) pubkey = Some sid
      \<and> dict_get (subscription_map s) sid = Some pubkey
      \<and> list_all (\<lambda>(i, pk). pk \<noteq> pubkey \<or> i = sid) (subscription_map s))"

text \<open>
  Nothing is left in the registry for an address, its own string key and the synthetic
  keys \<open>ids\<close>: no subscription id of the address in either direction, no synthetic key
  in its set, no initial value, for none of the keys a decoder or a cached value, and for
  none of the synthetic keys a subscription id.
\<close>

definition purged :: "Pubkey \<Rightarrow> string list \<Rightarrow> 'v state \<Rightarrow> bool" where
  "purged pubkey ids s =
     (\<not> dict_has (pubkey_to_subscription s) pubkey
      \<and> pubkey \<notin> snd ` set (subscription_map s)
      \<and> oracle_ids_of s pubkey = []
      \<and> \<not> dict_has (initial_data_map s) (str pubkey)
      \<and> (\<forall>k \<in> set (str pubkey # ids).
            \<not> dict_has (decode_map s) k \<and> \<not> dict_has (data_map s) k)
      \<and> (\<forall>oid \<in> set ids. \<not> dict_has (oracle_id_to_subscription s) oid))"

text \<open>The request ids of the subscribe frames among some effects, in order.\<close>

fun sent_ids :: "effect list \<Rightarrow> int list" where
  "sent_ids [] = []"
| "sent_ids (SendSubscribe i pubkey # es) = i # sent_ids es"
| "sent_ids (e # es) = sent_ids es"

text \<open>
  The request ids sent by some effects are strictly increasing and lie between the counter
  before (exclusive) and the counter after (inclusive).
\<close>

definition fresh_ids :: "int \<Rightarrow> effect list \<Rightarrow> int \<Rightarrow> bool" where
  "fresh_ids c es c' =
     (c \<le> c' \<and> sorted_wrt (<) (sent_ids es) \<and> list_all (\<lambda>i. c < i \<and> i \<le> c') (sent_ids es))"

definition is_unsubscribe :: "'v event \<Rightarrow> bool" where
  "is_unsubscribe ev = (case ev of EvUnsubscribe te \<Rightarrow> True | _ \<Rightarrow> False)"

section \<open>Example states\<close>

text \<open>A decoder that accepts every payload and returns it.\<close>

definition example_decode :: "bytes \<Rightarrow> bytes option" where
  "example_decode b = Some b"

text \<open>A decoder that raises on every payload.\<close>

definition garbled_decode :: "bytes \<Rightarrow> bytes option" where
  "garbled_decode b = None"

text \<open>
  Stand-ins for the library functions in the examples: every string names an address, a
  string of ASCII digits is all digits, no string is a number, every send returns.
\<close>

definition example_from_string :: "string \<Rightarrow> Pubkey option" where
  "example_from_string t = Some (Pubkey t)"

definition example_isdigit :: "string \<Rightarrow> bool" where
  "example_isdigit t = (t \<noteq> [] \<and> list_all (\<lambda>c. c \<in> set ''0123456789'') t)"

definition example_to_int :: "string \<Rightarrow> int option" where
  "example_to_int t = None"

definition always_sent :: "int \<Rightarrow> bool" where
  "always_sent request_id = True"

text \<open>
  A cache with the own string key of address \<open>A\<close> and one synthetic key of address
  \<open>B\<close>.
\<close>

definition get_data_example :: "nat state" where
  "get_data_example = init
     \<lparr> data_map := [(''A'', Some \<lparr>slot = 3, data = 30\<rparr>), (''B-1'', Some \<lparr>slot = 4, data = 40\<rparr>)],
       pubkey_to_oracle_ids := [(Pubkey ''B'', [''B-1''])] \<rparr>"

text \<open>A connected subscriber with no feed.\<close>

definition connected_example :: "bytes state" where
  "connected_example = init \<lparr> ws := Some 0, running := True, task := True \<rparr>"

text \<open>Address \<open>A\<close> subscribed under id 42 through the synthetic key \<open>A-1\<close>.\<close>

definition subscribed_example :: "bytes state" where
  "subscribed_example = init
     \<lparr> ws := Some 0, running := True, task := True,
       subscription_map := [(42, Pubkey ''A'')],
       pubkey_to_subscription := [(Pubkey ''A'', 42)],
       decode_map := [(''A-1'', example_decode)],
       data_map := [(''A-1'', Some \<lparr>slot = 1, data = ''x''\<rparr>)],
       pubkey_to_oracle_ids := [(Pubkey ''A'', [''A-1''])],
       oracle_id_to_subscription := [(''A-1'', 42)],
       request_id_counter := 1 \<rparr>"

text \<open>
  Address \<open>A\<close> subscribed under id 42, with its own string key and one synthetic key;
  then with a second synthetic key.
\<close>

definition two_keys_example :: "bytes state" where
  "two_keys_example = init
     \<lparr> ws := Some 0, running := True, task := True,
       subscription_map := [(42, Pubkey ''A'')],
       pubkey_to_subscription := [(Pubkey ''A'', 42)],
       decode_map := [(''A'', example_decode), (''A-1'', example_decode)],
       data_map := [(''A'', Some \<lparr>slot = 1, data = ''x''\<rparr>),
                    (''A-1'', Some \<lparr>slot = 2, data = ''y''\<rparr>)],
       pubkey_to_oracle_ids := [(Pubkey ''A'', [''A-1''])],
       oracle_id_to_subscription := [(''A-1'', 42)],
       request_id_counter := 1 \<rparr>"

definition three_keys_example :: "bytes state" where
  "three_keys_example = two_keys_example
     \<lparr> decode_map := [(''A'', example_decode), (''A-1'', example_decode), (''A-2'', example_decode)],
       data_map := [(''A'', Some \<lparr>slot = 1, data = ''x''\<rparr>),
                    (''A-1'', Some \<lparr>slot = 2, data = ''y''\<rparr>),
                    (''A-2'', Some \<lparr>slot = 3, data = ''z''\<rparr>)],
       pubkey_to_oracle_ids := [(Pubkey ''A'', [''A-1'', ''A-2''])],
       oracle_id_to_subscription := [(''A-1'', 42), (''A-2'', 42)] \<rparr>"

text \<open>The state with three keys, where the decoder of \<open>A-1\<close> raises.\<close>

definition fan_out_example :: "bytes state" where
  "fan_out_example = three_keys_example
     \<lparr> decode_map := [(''A'', example_decode), (''A-1'', garbled_decode),
                       (''A-2'', example_decode)] \<rparr>"

text \<open>A connected subscriber right after its first \<^verbatim>\<open>add_account\<close>.\<close>

definition unconfirmed_example :: "bytes state" where
  "unconfirmed_example =
     snd (add_account (Pubkey ''A'') example_decode (Some \<lparr>slot = 1, data = ''x''\<rparr>) None
            Raises True connected_example)"

text \<open>
  A connected subscriber: address \<open>A\<close> subscribed under id 42, and the subscribe request
  for address \<open>B\<close> in flight under request id 2. It is what the events of
  \<open>closing_history\<close> make of a fresh subscriber.
\<close>

definition closing_example :: "bytes state" where
  "closing_example = init
     \<lparr> ws := Some 0, task := True,
       subscription_map := [(42, Pubkey ''A'')],
       pubkey_to_subscription := [(Pubkey ''A'', 42)],
       decode_map := [(''A'', example_decode), (''B'', example_decode)],
       data_map := [(''A'', Some \<lparr>slot = 1, data = ''x''\<rparr>),
                    (''B'', Some \<lparr>slot = 1, data = ''y''\<rparr>)],
       request_id_counter := 2,
       inflight_subscribes := [(2, Pubkey ''B'', None)],
       running := True \<rparr>"

definition closing_history :: "bytes event list" where
  "closing_history =
     [EvSubscribe, EvTaskStart, EvConnected 0 always_sent,
      EvAddAccount (Pubkey ''A'') example_decode (Some \<lparr>slot = 1, data = ''x''\<rparr>) None Raises True,
      EvRecv (Received (Confirmation 42 (Some (IdInt 1)))),
      EvAddAccount (Pubkey ''B'') example_decode (Some \<lparr>slot = 1, data = ''y''\<rparr>) None Raises True]"

text \<open>Events that lead a fresh subscriber to two of the states above.\<close>

definition two_keys_history :: "bytes event list" where
  "two_keys_history =
     [EvSubscribe, EvTaskStart, EvConnected 0 always_sent,
      EvAddAccount (Pubkey ''A'') example_decode (Some \<lparr>slot = 1, data = ''x''\<rparr>) None Raises True,
      EvRecv (Received (Confirmation 42 (Some (IdInt 1)))),
      EvAddAccount (Pubkey ''A'') example_decode (Some \<lparr>slot = 2, data = ''y''\<rparr>) (Some ''A-1'')
        Raises True]"

definition subscribed_history :: "bytes event list" where
  "subscribed_history =
     [EvSubscribe, EvTaskStart, EvConnected 0 always_sent,
      EvAddAccount (Pubkey ''A'') example_decode (Some \<lparr>slot = 1, data = ''x''\<rparr>) (Some ''A-1'')
        Raises True,
      EvRecv (Received (Confirmation 42 (Some (IdInt 1))))]"

section \<open>Facts about dictionaries\<close>

lemma dict_get_set [simp]:
  "dict_get (dict_set k v d) k' = (if k' = k then Some v else dict_get d k')"
  by (simp add: dict_get_def dict_set_def update_conv')

lemma dict_get_del [simp]:
  "dict_get (dict_del k d) k' = (if k' = k then None else dict_get d k')"
  by (simp add: dict_get_def dict_del_def delete_conv')

lemma dict_has_get: "dict_has d k = (dict_get d k \<noteq> None)"
  by (simp add: dict_has_def dict_get_def)

lemma dict_get_Nil [simp]: "dict_get [] k = None"
  by (simp add: dict_get_def)

lemma dict_has_Nil [simp]: "\<not> dict_has [] k"
  by (simp add: dict_has_def)

lemma get_opt_set [simp]:
  "get_opt (dict_set k v d) k' = (if k' = k then v else get_opt d k')"
  by (simp add: get_opt_def dict_set_def update_conv')

lemma get_opt_del [simp]:
  "get_opt (dict_del k d) k' = (if k' = k then None else get_opt d k')"
  by (simp add: get_opt_def dict_del_def delete_conv')

lemma get_opt_Nil [simp]: "get_opt [] k = None"
  by (simp add: get_opt_def)

lemma dict_has_set [simp]: "dict_has (dict_set k v d) k' = (k' = k \<or> dict_has d k')"
  by (simp add: dict_has_get)

lemma dict_has_del [simp]: "dict_has (dict_del k d) k' = (k' \<noteq> k \<and> dict_has d k')"
  by (simp add: dict_has_get)

section \<open>The slot rule\<close>

lemma update_data_None: "update_data key None s = s"
  by (simp add: update_data_def)

lemma update_data_cached:
  "get_opt (data_map (update_data key (Some nd) s)) key =
     (case get_opt (data_map s) key of
        None \<Rightarrow> Some nd
      | Some cur \<Rightarrow> if slot cur \<le> slot nd then Some nd else Some cur)"
  by (simp add: update_data_def split: option.splits)

lemma apply_updates_snoc:
  "apply_updates key (us @ [u]) s = update_data key (Some u) (apply_updates key us s)"
  by (simp add: apply_updates_def)

lemma max_slot_snoc:
  "us \<noteq> [] \<Longrightarrow> max_slot (us @ [u]) = max (slot u) (max_slot us)"
  by (simp add: max_slot_def)

lemma max_slot_attained:
  assumes "us \<noteq> []"
  shows "filter (\<lambda>u. slot u = max_slot us) us \<noteq> []"
proof -
  have "max_slot us \<in> slot ` set us"
    unfolding max_slot_def using assms by (intro Max_in) auto
  then obtain u where "u \<in> set us" "slot u = max_slot us" by auto
  then show ?thesis by (auto simp: filter_empty_conv)
qed

lemma slot_last_with_max_slot:
  assumes "us \<noteq> []"
  shows "slot (last_with_max_slot us) = max_slot us"
proof -
  let ?f = "filter (\<lambda>u. slot u = max_slot us) us"
  have "last ?f \<in> set ?f" using max_slot_attained [OF assms] by (rule last_in_set)
  then show ?thesis by (simp add: last_with_max_slot_def)
qed

lemma last_with_max_slot_snoc:
  assumes "us \<noteq> []"
  shows "last_with_max_slot (us @ [u]) =
           (if max_slot us \<le> slot u then u else last_with_max_slot us)"
proof (cases "max_slot us \<le> slot u")
  case True
  then have "max_slot (us @ [u]) = slot u"
    using assms by (simp add: max_slot_snoc)
  then show ?thesis using True by (simp add: last_with_max_slot_def)
next
  case False
  then have m: "max_slot (us @ [u]) = max_slot us"
    using assms by (simp add: max_slot_snoc)
  have "slot u \<noteq> max_slot us" using False by simp
  then show ?thesis using False m by (simp add: last_with_max_slot_def)
qed

lemma apply_updates_cached:
  assumes "get_opt (data_map s) key = None"
  shows "get_opt (data_map (apply_updates key us s)) key =
           (if us = [] then None else Some (last_with_max_slot us))"
proof (induction us rule: rev_induct)
  case Nil
  then show ?case using assms by (simp add: apply_updates_def)
next
  case (snoc u us)
  show ?case
  proof (cases "us = []")
    case True
    then show ?thesis
      using assms
      by (simp add: apply_updates_def update_data_cached last_with_max_slot_def max_slot_def)
  next
    case False
    then have c: "get_opt (data_map (apply_updates key us s)) key = Some (last_with_max_slot us)"
      using snoc by simp
    show ?thesis
      using False
      by (simp add: apply_updates_snoc update_data_cached c slot_last_with_max_slot
          last_with_max_slot_snoc)
  qed
qed

text \<open>
  C1. \<^verbatim>\<open>_update_data\<close> with \<^verbatim>\<open>None\<close> leaves the subscriber unchanged. With a
  value it writes that value under the key exactly when nothing is cached for the key or
  the cached slot is not larger (an equal slot is overwritten), and otherwise changes
  nothing. Consequently, for a key with nothing cached and any non-empty list of updates
  applied in the order of the list, the cached value afterwards has the largest slot of the
  list and is the last update of the list that carries this slot.
\<close>

theorem update_data_slot_rule:
  "update_data key None s = s
   \<and> update_data key (Some nd) s =
       (if get_opt (data_map s) key = None
           \<or> (\<exists>cur. get_opt (data_map s) key = Some cur \<and> slot cur \<le> slot nd)
        then s\<lparr>data_map := dict_set key (Some nd) (data_map s)\<rparr>
        else s)
   \<and> (get_opt (data_map s) key = None \<and> us \<noteq> [] \<longrightarrow>
       get_opt (data_map (apply_updates key us s)) key = Some (last_with_max_slot us)
       \<and> slot (last_with_max_slot us) = Max (slot ` set us)
       \<and> last_with_max_slot us = last (filter (\<lambda>u. slot u = Max (slot ` set us)) us))"
proof (intro conjI impI)
  show "update_data key None s = s" by (rule update_data_None)
  show "update_data key (Some nd) s =
     (if get_opt (data_map s) key = None
         \<or> (\<exists>cur. get_opt (data_map s) key = Some cur \<and> slot cur \<le> slot nd)
      then s\<lparr>data_map := dict_set key (Some nd) (data_map s)\<rparr>
      else s)"
    by (auto simp: update_data_def split: option.splits)
next
  assume "get_opt (data_map s) key = None \<and> us \<noteq> []"
  then have a: "get_opt (data_map s) key = None" and b: "us \<noteq> []" by simp_all
  show "get_opt (data_map (apply_updates key us s)) key = Some (last_with_max_slot us)"
    using apply_updates_cached [OF a, of us] b by simp
  show "slot (last_with_max_slot us) = Max (slot ` set us)"
    using slot_last_with_max_slot [OF b] by (simp add: max_slot_def)
  show "last_with_max_slot us = last (filter (\<lambda>u. slot u = Max (slot ` set us)) us)"
    by (simp add: last_with_max_slot_def max_slot_def)
qed

theorem update_data_slot_rule_witness:
  "get_opt (data_map (init :: nat state)) ''K'' = None
   \<and> [\<lparr>slot = 5, data = 1\<rparr>, \<lparr>slot = 7, data = 2\<rparr>, \<lparr>slot = 7, data = 3\<rparr>,
       \<lparr>slot = 6, data = 4::nat\<rparr>] \<noteq> []
   \<and> get_opt (data_map (apply_updates ''K''
         [\<lparr>slot = 5, data = 1\<rparr>, \<lparr>slot = 7, data = 2\<rparr>, \<lparr>slot = 7, data = 3\<rparr>,
          \<lparr>slot = 6, data = 4::nat\<rparr>] init)) ''K''
       = Some \<lparr>slot = 7, data = 3\<rparr>
   \<and> last_with_max_slot
         [\<lparr>slot = 5, data = 1\<rparr>, \<lparr>slot = 7, data = 2\<rparr>, \<lparr>slot = 7, data = 3\<rparr>,
          \<lparr>slot = 6, data = 4::nat\<rparr>] = \<lparr>slot = 7, data = 3\<rparr>"
  using update_data_slot_rule [of "''K''" "init :: nat state" "\<lparr>slot = 5, data = 1\<rparr>"
      "[\<lparr>slot = 5, data = 1\<rparr>, \<lparr>slot = 7, data = 2\<rparr>, \<lparr>slot = 7, data = 3\<rparr>,
        \<lparr>slot = 6, data = 4::nat\<rparr>]"]
  by (simp add: init_def last_with_max_slot_def)

text \<open>
  C10. Whatever the interpreter's choice \<open>first_of\<close>: \<^verbatim>\<open>get_data\<close> with a
  \<^verbatim>\<open>Pubkey\<close> that has no synthetic keys (no entry or an empty set in
  \<^verbatim>\<open>pubkey_to_oracle_ids\<close>) reads the cache under \<^verbatim>\<open>str(pubkey)\<close>;
  with a \<^verbatim>\<open>Pubkey\<close> that has exactly one synthetic key it reads the cache under that
  key; with a string it reads the cache under exactly that string, which is \<^verbatim>\<open>None\<close>
  when the string is not a key of the cache. In every case the subscriber is left as it was.
\<close>

theorem get_data_reads_cache:
  "(dict_get (pubkey_to_oracle_ids s) pk = None \<or> dict_get (pubkey_to_oracle_ids s) pk = Some []
      \<longrightarrow> get_data first_of (Inl pk) s = (get_opt (data_map s) (str pk), [], s))
   \<and> (dict_get (pubkey_to_oracle_ids s) pk = Some [oid]
      \<longrightarrow> get_data first_of (Inl pk) s = (get_opt (data_map s) oid, [], s))
   \<and> get_data first_of (Inr k) s = (get_opt (data_map s) k, [], s)
   \<and> (\<not> dict_has (data_map s) k \<longrightarrow> fst (get_data first_of (Inr k) s) = None)
   \<and> snd (snd (get_data first_of key s)) = s"
proof -
  have "snd (snd (get_data first_of key s)) = s"
    by (cases key) (simp_all add: get_data_def Let_def split: option.splits list.splits)
  moreover have "\<not> dict_has (data_map s) k \<longrightarrow> fst (get_data first_of (Inr k) s) = None"
    by (simp add: get_data_def dict_has_def get_opt_def)
  ultimately show ?thesis
    by (auto simp: get_data_def)
qed

theorem get_data_reads_cache_witness:
  "dict_get (pubkey_to_oracle_ids get_data_example) (Pubkey ''A'') = None
   \<and> get_data hd (Inl (Pubkey ''A'')) get_data_example
       = (Some \<lparr>slot = 3, data = 30\<rparr>, [], get_data_example)
   \<and> dict_get (pubkey_to_oracle_ids get_data_example) (Pubkey ''B'') = Some [''B-1'']
   \<and> get_data hd (Inl (Pubkey ''B'')) get_data_example
       = (Some \<lparr>slot = 4, data = 40\<rparr>, [], get_data_example)
   \<and> \<not> dict_has (data_map get_data_example) ''C''
   \<and> fst (get_data hd (Inr ''C'') get_data_example) = None"
  using get_data_reads_cache [of get_data_example "Pubkey ''A''" hd "''B-1''" "''C''" "Inr ''C''"]
    get_data_reads_cache [of get_data_example "Pubkey ''B''" hd "''B-1''" "''C''" "Inr ''C''"]
  by (simp add: get_data_example_def init_def dict_get_def dict_has_def get_opt_def)

section \<open>Adding a feed\<close>

text \<open>
  C5 (as the code has it). When \<^verbatim>\<open>add_account\<close> is called without an initial
  value, for an address that has no subscription and a key with nothing cached, and the
  snapshot fetch raises, the method prints the error and returns: nothing is raised to the
  caller. No cached value is stored, no request id is taken, no in-flight entry is made, no
  frame is sent and the subscription maps are untouched; the decoder stored at line 82
  stays registered under the key, and a synthetic key stays in the set of its address.
\<close>

theorem add_account_fetch_failure:
  assumes "dict_get (pubkey_to_subscription s) pubkey = None"
    and "get_opt (data_map s) (key_of pubkey oracle_id) = None"
  shows "add_account pubkey decode_fn None oracle_id Raises send_ok s =
           ([Print (ErrorFetchingInitialData pubkey)],
            (let s1 = s\<lparr>decode_map := dict_set (key_of pubkey oracle_id) decode_fn (decode_map s)\<rparr>
             in case oracle_id of None \<Rightarrow> s1 | Some oid \<Rightarrow> add_oracle_id pubkey oid s1))
         \<and> dict_get (decode_map (snd (add_account pubkey decode_fn None oracle_id Raises send_ok s)))
             (key_of pubkey oracle_id) = Some decode_fn
         \<and> data_map (snd (add_account pubkey decode_fn None oracle_id Raises send_ok s)) = data_map s
         \<and> inflight_subscribes (snd (add_account pubkey decode_fn None oracle_id Raises send_ok s))
             = inflight_subscribes s
         \<and> request_id_counter (snd (add_account pubkey decode_fn None oracle_id Raises send_ok s))
             = request_id_counter s
         \<and> subscription_map (snd (add_account pubkey decode_fn None oracle_id Raises send_ok s))
             = subscription_map s
         \<and> pubkey_to_subscription (snd (add_account pubkey decode_fn None oracle_id Raises send_ok s))
             = pubkey_to_subscription s
         \<and> oracle_id_to_subscription (snd (add_account pubkey decode_fn None oracle_id Raises send_ok s))
             = oracle_id_to_subscription s"
proof -
  have eq: "add_account pubkey decode_fn None oracle_id Raises send_ok s =
           ([Print (ErrorFetchingInitialData pubkey)],
            (let s1 = s\<lparr>decode_map := dict_set (key_of pubkey oracle_id) decode_fn (decode_map s)\<rparr>
             in case oracle_id of None \<Rightarrow> s1 | Some oid \<Rightarrow> add_oracle_id pubkey oid s1))"
    using assms
    by (simp add: add_account_def add_account_register_def add_account_fetch_def Let_def
        split: option.splits)
  show ?thesis
    unfolding eq by (cases oracle_id) (simp_all add: Let_def add_oracle_id_def)
qed

theorem add_account_fetch_failure_witness:
  "dict_get (pubkey_to_subscription (init :: bytes state)) (Pubkey ''A'') = None
   \<and> get_opt (data_map (init :: bytes state)) (key_of (Pubkey ''A'') (Some ''A-1'')) = None
   \<and> add_account (Pubkey ''A'') example_decode None (Some ''A-1'') Raises True init =
       ([Print (ErrorFetchingInitialData (Pubkey ''A''))],
        init\<lparr>decode_map := [(''A-1'', example_decode)],
             pubkey_to_oracle_ids := [(Pubkey ''A'', [''A-1''])]\<rparr>)"
  using add_account_fetch_failure [of "init :: bytes state" "Pubkey ''A''" "Some ''A-1''"
      example_decode True]
  by (simp add: init_def key_of_def add_oracle_id_def oracle_ids_of_def set_add_def
      dict_set_def dict_get_def get_opt_def)

text \<open>
  C5 as the specification words it fails on a fresh subscriber: after the failed
  fetch the decoder of the key is registered, and the call has only printed.
\<close>

theorem add_account_fetch_failure_counterexample:
  "dict_has (decode_map (snd (add_account (Pubkey ''A'') example_decode None None Raises True
      (init :: bytes state)))) (str (Pubkey ''A''))
   \<and> fst (add_account (Pubkey ''A'') example_decode None None Raises True (init :: bytes state))
       = [Print (ErrorFetchingInitialData (Pubkey ''A''))]"
  by (simp add: add_account_def add_account_register_def add_account_fetch_def Let_def
      init_def key_of_def dict_get_def get_opt_def dict_set_def dict_has_def)

text \<open>
  C4 (as the code has it). \<^verbatim>\<open>add_account\<close> for an address that has an entry in
  \<^verbatim>\<open>pubkey_to_subscription\<close>: with a synthetic key it adds the key to the set of
  the address, maps it to the existing subscription id, stores its decoder and, when one is
  given, its initial value, and returns; no frame is sent, no request id is taken and no
  in-flight entry is made. Without a synthetic key it returns with the subscriber unchanged.
\<close>

theorem add_account_subscribed_address:
  assumes "dict_get (pubkey_to_subscription s) pubkey = Some sid"
  shows "add_account pubkey decode_fn initial_data (Some oid) fetch send_ok s =
           ([], s\<lparr>pubkey_to_oracle_ids :=
                     dict_set pubkey (set_add oid (oracle_ids_of s pubkey)) (pubkey_to_oracle_ids s),
                   oracle_id_to_subscription := dict_set oid sid (oracle_id_to_subscription s),
                   decode_map := dict_set oid decode_fn (decode_map s),
                   data_map := (case initial_data of
                                  None \<Rightarrow> data_map s
                                | Some d \<Rightarrow> dict_set oid (Some d) (data_map s))\<rparr>)
         \<and> add_account pubkey decode_fn initial_data None fetch send_ok s = ([], s)"
  using assms
  by (cases initial_data)
    (simp_all add: add_account_def add_account_register_def Let_def add_oracle_id_def key_of_def)

theorem add_account_subscribed_address_witness:
  "dict_get (pubkey_to_subscription subscribed_example) (Pubkey ''A'') = Some 42
   \<and> add_account (Pubkey ''A'') example_decode (Some \<lparr>slot = 5, data = ''y''\<rparr>) (Some ''A-2'')
        Raises True subscribed_example =
       ([], subscribed_example
          \<lparr>pubkey_to_oracle_ids := [(Pubkey ''A'', [''A-1'', ''A-2''])],
           oracle_id_to_subscription := [(''A-1'', 42), (''A-2'', 42)],
           decode_map := [(''A-1'', example_decode), (''A-2'', example_decode)],
           data_map := [(''A-1'', Some \<lparr>slot = 1, data = ''x''\<rparr>),
                        (''A-2'', Some \<lparr>slot = 5, data = ''y''\<rparr>)]\<rparr>)"
  using add_account_subscribed_address [of subscribed_example "Pubkey ''A''" 42 example_decode
      "Some \<lparr>slot = 5, data = ''y''\<rparr>" "''A-2''" Raises True]
  by (simp add: subscribed_example_def init_def oracle_ids_of_def set_add_def
      dict_set_def dict_get_def)

text \<open>
  C4 as the specification words it fails twice. Adding the address's own string key
  to an address subscribed through a synthetic key stores no decoder for it. And two calls
  for one address on one connection, the second made before the confirmation of the first
  has arrived, send two subscribe frames for that address.
\<close>

theorem add_account_subscribed_address_counterexample:
  "\<not> dict_has (decode_map (snd (add_account (Pubkey ''A'') example_decode
         (Some \<lparr>slot = 5, data = ''y''\<rparr>) None Raises True subscribed_example)))
       (str (Pubkey ''A''))
   \<and> fst (add_account (Pubkey ''A'') example_decode (Some \<lparr>slot = 5, data = ''y''\<rparr>)
         (Some ''A-1'') Raises True connected_example) = [SendSubscribe 1 (Pubkey ''A'')]
   \<and> fst (add_account (Pubkey ''A'') example_decode (Some \<lparr>slot = 5, data = ''y''\<rparr>)
         (Some ''A-2'') Raises True
         (snd (add_account (Pubkey ''A'') example_decode (Some \<lparr>slot = 5, data = ''y''\<rparr>)
            (Some ''A-1'') Raises True connected_example))) = [SendSubscribe 2 (Pubkey ''A'')]"
  by (simp add: add_account_def add_account_register_def add_account_fetch_def
      add_account_subscribe_def Let_def add_oracle_id_def oracle_ids_of_def set_add_def
      subscribed_example_def connected_example_def init_def key_of_def
      dict_get_def get_opt_def dict_set_def dict_has_def)

section \<open>Removing a feed\<close>

lemma fold_dict_del_get:
  "dict_get (fold dict_del ks d) k = (if k \<in> set ks then None else dict_get d k)"
  by (induction ks arbitrary: d) auto

lemma fold_dict_del_has:
  "dict_has (fold dict_del ks d) k = (k \<notin> set ks \<and> dict_has d k)"
  by (simp add: dict_has_get fold_dict_del_get)

lemma fold_forget_fields:
  "decode_map (fold forget_oracle_id ids s) = fold dict_del ids (decode_map s)"
  "data_map (fold forget_oracle_id ids s) = fold dict_del ids (data_map s)"
  "oracle_id_to_subscription (fold forget_oracle_id ids s)
     = fold dict_del ids (oracle_id_to_subscription s)"
  "subscription_map (fold forget_oracle_id ids s) = subscription_map s"
  "pubkey_to_subscription (fold forget_oracle_id ids s) = pubkey_to_subscription s"
  "initial_data_map (fold forget_oracle_id ids s) = initial_data_map s"
  "pubkey_to_oracle_ids (fold forget_oracle_id ids s) = pubkey_to_oracle_ids s"
  by (induction ids arbitrary: s) (simp_all add: forget_oracle_id_def)

lemma no_id_left:
  "list_all (\<lambda>(i, pk). pk \<noteq> pubkey \<or> i = sid) d \<Longrightarrow> pubkey \<notin> snd ` set (dict_del sid d)"
  by (induction d) (auto simp: dict_del_def)

lemma remove_one_of_several:
  assumes "dict_get (pubkey_to_oracle_ids s) pubkey = Some ids"
    and "set_discard oid ids \<noteq> []"
  shows "remove_account pubkey (Some oid) s =
           (None, [], forget_oracle_id oid
              (s\<lparr>pubkey_to_oracle_ids :=
                   dict_set pubkey (set_discard oid ids) (pubkey_to_oracle_ids s)\<rparr>))"
  using assms
  by (simp add: remove_account_def Let_def oracle_ids_of_def forget_oracle_id_def)

lemma teardown_purges:
  assumes "subscribed_as pubkey sid s"
  shows "fst (remove_account_teardown pubkey s) = None"
    and "\<not> dict_has (pubkey_to_subscription (snd (snd (remove_account_teardown pubkey s)))) pubkey"
    and "pubkey \<notin> snd ` set (subscription_map (snd (snd (remove_account_teardown pubkey s))))"
    and "\<not> dict_has (initial_data_map (snd (snd (remove_account_teardown pubkey s)))) (str pubkey)"
    and "dict_has (decode_map (snd (snd (remove_account_teardown pubkey s)))) k
           = (k \<noteq> str pubkey \<and> dict_has (decode_map s) k)"
    and "dict_has (data_map (snd (snd (remove_account_teardown pubkey s)))) k
           = (k \<noteq> str pubkey \<and> dict_has (data_map s) k)"
    and "oracle_id_to_subscription (snd (snd (remove_account_teardown pubkey s)))
           = oracle_id_to_subscription s"
    and "pubkey_to_oracle_ids (snd (snd (remove_account_teardown pubkey s)))
           = pubkey_to_oracle_ids s"
proof -
  have a: "dict_get (pubkey_to_subscription s) pubkey = Some sid"
    and b: "dict_has (subscription_map s) sid"
    and c: "list_all (\<lambda>(i, pk). pk \<noteq> pubkey \<or> i = sid) (subscription_map s)"
    using assms by (simp_all add: subscribed_as_def dict_has_get)
  show "fst (remove_account_teardown pubkey s) = None"
    and "\<not> dict_has (pubkey_to_subscription (snd (snd (remove_account_teardown pubkey s)))) pubkey"
    and "\<not> dict_has (initial_data_map (snd (snd (remove_account_teardown pubkey s)))) (str pubkey)"
    and "dict_has (decode_map (snd (snd (remove_account_teardown pubkey s)))) k
           = (k \<noteq> str pubkey \<and> dict_has (decode_map s) k)"
    and "dict_has (data_map (snd (snd (remove_account_teardown pubkey s)))) k
           = (k \<noteq> str pubkey \<and> dict_has (data_map s) k)"
    and "oracle_id_to_subscription (snd (snd (remove_account_teardown pubkey s)))
           = oracle_id_to_subscription s"
    and "pubkey_to_oracle_ids (snd (snd (remove_account_teardown pubkey s)))
           = pubkey_to_oracle_ids s"
    using a b by (simp_all add: remove_account_teardown_def)
  show "pubkey \<notin> snd ` set (subscription_map (snd (snd (remove_account_teardown pubkey s))))"
    using a b no_id_left [OF c] by (simp add: remove_account_teardown_def)
qed

text \<open>
  Where the two subscription maps disagree, line 181 raises and the address keeps its entry.
\<close>

lemma teardown_missing_id:
  assumes "dict_get (pubkey_to_subscription s) pubkey = Some sid"
    and "\<not> dict_has (subscription_map s) sid"
  shows "remove_account_teardown pubkey s = (Some KeyError, [], s)"
  using assms by (simp add: remove_account_teardown_def)

lemma remove_last_synthetic:
  assumes "dict_get (pubkey_to_oracle_ids s) pubkey = Some ids"
    and "set_discard oid ids = []"
    and "subscribed_as pubkey sid s"
  shows "fst (remove_account pubkey (Some oid) s) = None"
    and "purged pubkey (oid # ids) (snd (snd (remove_account pubkey (Some oid) s)))"
    and "dict_get (pubkey_to_oracle_ids (snd (snd (remove_account pubkey (Some oid) s)))) pubkey
           = Some []"
proof -
  define s1 where "s1 = forget_oracle_id oid
      (s\<lparr>pubkey_to_oracle_ids := dict_set pubkey [] (pubkey_to_oracle_ids s)\<rparr>)"
  have r: "remove_account pubkey (Some oid) s = remove_account_teardown pubkey s1"
    using assms(1,2)
    by (simp add: s1_def remove_account_def Let_def oracle_ids_of_def forget_oracle_id_def)
  have p: "subscribed_as pubkey sid s1"
    using assms(3) by (simp add: s1_def forget_oracle_id_def subscribed_as_def)
  have f: "\<not> dict_has (decode_map s1) oid" "\<not> dict_has (data_map s1) oid"
    "\<not> dict_has (oracle_id_to_subscription s1) oid"
    "dict_get (pubkey_to_oracle_ids s1) pubkey = Some []"
    by (simp_all add: s1_def forget_oracle_id_def)
  have ids: "set ids \<subseteq> {oid}"
    using assms(2) by (auto simp: set_discard_def removeAll_filter_not_eq filter_empty_conv)
  show "fst (remove_account pubkey (Some oid) s) = None"
    unfolding r by (rule teardown_purges(1) [OF p])
  show "purged pubkey (oid # ids) (snd (snd (remove_account pubkey (Some oid) s)))"
    unfolding r purged_def
    using ids f teardown_purges(3) [OF p]
    by (auto simp: teardown_purges(2,4-8) [OF p] oracle_ids_of_def)
  show "dict_get (pubkey_to_oracle_ids (snd (snd (remove_account pubkey (Some oid) s)))) pubkey
           = Some []"
    unfolding r using f(4) by (simp add: teardown_purges(8) [OF p])
qed

lemma remove_whole_address:
  assumes "dict_get (pubkey_to_oracle_ids s) pubkey = Some ids"
    and "subscribed_as pubkey sid s"
  shows "fst (remove_account pubkey None s) = None"
    and "purged pubkey ids (snd (snd (remove_account pubkey None s)))"
proof -
  define s1 where "s1 = (fold forget_oracle_id ids s)
      \<lparr>pubkey_to_oracle_ids := dict_del pubkey (pubkey_to_oracle_ids s)\<rparr>"
  have r: "remove_account pubkey None s = remove_account_teardown pubkey s1"
    using assms(1) by (simp add: s1_def remove_account_def Let_def)
  have p: "subscribed_as pubkey sid s1"
    using assms(2) by (simp add: s1_def fold_forget_fields subscribed_as_def)
  have f: "\<And>k. k \<in> set ids \<Longrightarrow> \<not> dict_has (decode_map s1) k"
    "\<And>k. k \<in> set ids \<Longrightarrow> \<not> dict_has (data_map s1) k"
    "\<And>k. k \<in> set ids \<Longrightarrow> \<not> dict_has (oracle_id_to_subscription s1) k"
    "dict_get (pubkey_to_oracle_ids s1) pubkey = None"
    by (simp_all add: s1_def fold_forget_fields fold_dict_del_has)
  show "fst (remove_account pubkey None s) = None"
    unfolding r by (rule teardown_purges(1) [OF p])
  show "purged pubkey ids (snd (snd (remove_account pubkey None s)))"
    unfolding r purged_def
    using f teardown_purges(3) [OF p]
    by (auto simp: teardown_purges(2,4-8) [OF p] oracle_ids_of_def)
qed

lemma remove_address_not_subscribed:
  assumes "dict_get (pubkey_to_subscription s) pubkey = None"
    and "dict_get (pubkey_to_oracle_ids s) pubkey = Some []"
  shows "remove_account pubkey None s =
           (None, [], s\<lparr>pubkey_to_oracle_ids := dict_del pubkey (pubkey_to_oracle_ids s)\<rparr>)"
  using assms by (simp add: remove_account_def remove_account_teardown_def Let_def)

lemma purged_without_entry:
  assumes "purged pubkey ids s"
  shows "purged pubkey ids
           (s\<lparr>pubkey_to_oracle_ids := dict_del pubkey (pubkey_to_oracle_ids s)\<rparr>)"
  using assms by (simp add: purged_def oracle_ids_of_def)

text \<open>
  C3 (as the code has it). Let the address have the synthetic keys \<open>ids\<close>.

  Removing a synthetic key while another synthetic key of the address stays deletes that
  key's decoder, cached value and subscription-id entry and nothing else: the decoder and
  cached value of every other key, the subscription maps and the wire are untouched.

  Let the subscription of the address be recorded under one id: the address maps to the id,
  the id maps back to the address, and no other id belongs to the address. Removing the last
  synthetic key of the address then raises nothing and leaves nothing for the address in the
  registry: the subscription is gone from both maps, and so are the decoder and cached value
  of the address's own string key. Removing the address without a key afterwards raises
  nothing and still leaves nothing; removing the address without a key in the first place
  purges all its keys in the same way. Nothing is said here about the wire.
\<close>

theorem remove_account_partial_and_full:
  assumes "dict_get (pubkey_to_oracle_ids s) pubkey = Some ids"
  shows "(set_discard oid ids \<noteq> [] \<longrightarrow>
            remove_account pubkey (Some oid) s =
              (None, [], forget_oracle_id oid
                 (s\<lparr>pubkey_to_oracle_ids :=
                      dict_set pubkey (set_discard oid ids) (pubkey_to_oracle_ids s)\<rparr>))
            \<and> subscription_map (snd (snd (remove_account pubkey (Some oid) s))) = subscription_map s
            \<and> pubkey_to_subscription (snd (snd (remove_account pubkey (Some oid) s)))
                = pubkey_to_subscription s
            \<and> \<not> dict_has (decode_map (snd (snd (remove_account pubkey (Some oid) s)))) oid
            \<and> \<not> dict_has (data_map (snd (snd (remove_account pubkey (Some oid) s)))) oid
            \<and> (\<forall>k. k \<noteq> oid \<longrightarrow>
                  dict_get (decode_map (snd (snd (remove_account pubkey (Some oid) s)))) k
                    = dict_get (decode_map s) k
                  \<and> dict_get (data_map (snd (snd (remove_account pubkey (Some oid) s)))) k
                    = dict_get (data_map s) k))
       \<and> (subscribed_as pubkey sid s \<longrightarrow>
            (set_discard oid ids = [] \<longrightarrow>
               fst (remove_account pubkey (Some oid) s) = None
               \<and> purged pubkey (oid # ids) (snd (snd (remove_account pubkey (Some oid) s)))
               \<and> fst (remove_account pubkey None (snd (snd (remove_account pubkey (Some oid) s))))
                   = None
               \<and> purged pubkey (oid # ids)
                   (snd (snd (remove_account pubkey None
                     (snd (snd (remove_account pubkey (Some oid) s)))))))
            \<and> fst (remove_account pubkey None s) = None
            \<and> purged pubkey ids (snd (snd (remove_account pubkey None s))))"
proof (intro conjI impI)
  assume d: "set_discard oid ids \<noteq> []"
  note eq = remove_one_of_several [OF assms d]
  show "remove_account pubkey (Some oid) s =
              (None, [], forget_oracle_id oid
                 (s\<lparr>pubkey_to_oracle_ids :=
                      dict_set pubkey (set_discard oid ids) (pubkey_to_oracle_ids s)\<rparr>))"
    by (rule eq)
  show "subscription_map (snd (snd (remove_account pubkey (Some oid) s))) = subscription_map s"
    by (simp add: eq forget_oracle_id_def)
  show "pubkey_to_subscription (snd (snd (remove_account pubkey (Some oid) s)))
                = pubkey_to_subscription s"
    by (simp add: eq forget_oracle_id_def)
  show "\<not> dict_has (decode_map (snd (snd (remove_account pubkey (Some oid) s)))) oid"
    by (simp add: eq forget_oracle_id_def)
  show "\<not> dict_has (data_map (snd (snd (remove_account pubkey (Some oid) s)))) oid"
    by (simp add: eq forget_oracle_id_def)
  show "\<forall>k. k \<noteq> oid \<longrightarrow>
                  dict_get (decode_map (snd (snd (remove_account pubkey (Some oid) s)))) k
                    = dict_get (decode_map s) k
                  \<and> dict_get (data_map (snd (snd (remove_account pubkey (Some oid) s)))) k
                    = dict_get (data_map s) k"
    by (simp add: eq forget_oracle_id_def)
next
  assume h: "subscribed_as pubkey sid s"
  show "fst (remove_account pubkey None s) = None"
    by (rule remove_whole_address(1) [OF assms h])
  show "purged pubkey ids (snd (snd (remove_account pubkey None s)))"
    by (rule remove_whole_address(2) [OF assms h])
  assume d: "set_discard oid ids = []"
  let ?s2 = "snd (snd (remove_account pubkey (Some oid) s))"
  show "fst (remove_account pubkey (Some oid) s) = None"
    by (rule remove_last_synthetic(1) [OF assms d h])
  show p: "purged pubkey (oid # ids) ?s2"
    by (rule remove_last_synthetic(2) [OF assms d h])
  have e: "dict_get (pubkey_to_oracle_ids ?s2) pubkey = Some []"
    by (rule remove_last_synthetic(3) [OF assms d h])
  have n: "dict_get (pubkey_to_subscription ?s2) pubkey = None"
    using p by (simp add: purged_def dict_has_get)
  note eq = remove_address_not_subscribed [OF n e]
  show "fst (remove_account pubkey None ?s2) = None" by (simp add: eq)
  show "purged pubkey (oid # ids) (snd (snd (remove_account pubkey None ?s2)))"
    using purged_without_entry [OF p] by (simp add: eq)
qed

theorem remove_account_partial_and_full_witness:
  "dict_get (pubkey_to_oracle_ids three_keys_example) (Pubkey ''A'') = Some [''A-1'', ''A-2'']
   \<and> set_discard ''A-1'' [''A-1'', ''A-2''] \<noteq> []
   \<and> remove_account (Pubkey ''A'') (Some ''A-1'') three_keys_example =
       (None, [], three_keys_example
          \<lparr>pubkey_to_oracle_ids := [(Pubkey ''A'', [''A-2''])],
           oracle_id_to_subscription := [(''A-2'', 42)],
           decode_map := [(''A'', example_decode), (''A-2'', example_decode)],
           data_map := [(''A'', Some \<lparr>slot = 1, data = ''x''\<rparr>),
                        (''A-2'', Some \<lparr>slot = 3, data = ''z''\<rparr>)]\<rparr>)
   \<and> dict_get (pubkey_to_oracle_ids two_keys_example) (Pubkey ''A'') = Some [''A-1'']
   \<and> set_discard ''A-1'' [''A-1''] = []
   \<and> subscribed_as (Pubkey ''A'') 42 two_keys_example
   \<and> fst (remove_account (Pubkey ''A'') (Some ''A-1'') two_keys_example) = None
   \<and> purged (Pubkey ''A'') [''A-1'', ''A-1'']
       (snd (snd (remove_account (Pubkey ''A'') (Some ''A-1'') two_keys_example)))
   \<and> fst (remove_account (Pubkey ''A'') None two_keys_example) = None
   \<and> purged (Pubkey ''A'') [''A-1'']
       (snd (snd (remove_account (Pubkey ''A'') None two_keys_example)))"
  using remove_account_partial_and_full [of three_keys_example "Pubkey ''A''"
      "[''A-1'', ''A-2'']" "''A-1''" 42]
    remove_account_partial_and_full [of two_keys_example "Pubkey ''A''" "[''A-1'']" "''A-1''" 42]
  by (simp add: three_keys_example_def two_keys_example_def init_def set_discard_def
      subscribed_as_def forget_oracle_id_def dict_get_def dict_has_def dict_set_def dict_del_def)

text \<open>
  C3 as the specification words it fails where the address has its own string key and
  one synthetic key: removing the synthetic key drops the cached value and decoder of the
  string key and the subscription of the address.
\<close>

theorem remove_account_partial_and_full_counterexample:
  "get_opt (data_map two_keys_example) (str (Pubkey ''A'')) = Some \<lparr>slot = 1, data = ''x''\<rparr>
   \<and> dict_get (pubkey_to_subscription two_keys_example) (Pubkey ''A'') = Some 42
   \<and> oracle_ids_of two_keys_example (Pubkey ''A'') = [''A-1'']
   \<and> get_opt (data_map (snd (snd (remove_account (Pubkey ''A'') (Some ''A-1'') two_keys_example))))
        (str (Pubkey ''A'')) = None
   \<and> dict_get (decode_map (snd (snd (remove_account (Pubkey ''A'') (Some ''A-1'')
        two_keys_example)))) (str (Pubkey ''A'')) = None
   \<and> dict_get (pubkey_to_subscription (snd (snd (remove_account (Pubkey ''A'') (Some ''A-1'')
        two_keys_example)))) (Pubkey ''A'') = None"
  by (simp add: remove_account_def remove_account_teardown_def Let_def oracle_ids_of_def
      two_keys_example_def init_def set_discard_def
      forget_oracle_id_def dict_get_def dict_has_def dict_set_def dict_del_def get_opt_def)

section \<open>Notifications\<close>

lemma decode_and_store_decode_map [simp]:
  "decode_map (decode_and_store key sl b s) = decode_map s"
  by (simp add: decode_and_store_def update_data_def split: option.splits)

lemma decode_and_store_cached:
  "get_opt (data_map (decode_and_store key sl b s)) k =
     (if k = key then merge_result (dict_get (decode_map s) key) sl b (get_opt (data_map s) key)
      else get_opt (data_map s) k)"
  by (simp add: decode_and_store_def merge_result_def update_data_def split: option.splits)

lemma decode_and_store_frame:
  "ws (decode_and_store key sl b s) = ws s"
  "task (decode_and_store key sl b s) = task s"
  "subscription_map (decode_and_store key sl b s) = subscription_map s"
  "pubkey_to_subscription (decode_and_store key sl b s) = pubkey_to_subscription s"
  "initial_data_map (decode_and_store key sl b s) = initial_data_map s"
  "pending_subscriptions (decode_and_store key sl b s) = pending_subscriptions s"
  "pubkey_to_oracle_ids (decode_and_store key sl b s) = pubkey_to_oracle_ids s"
  "oracle_id_to_subscription (decode_and_store key sl b s) = oracle_id_to_subscription s"
  "request_id_counter (decode_and_store key sl b s) = request_id_counter s"
  "inflight_subscribes (decode_and_store key sl b s) = inflight_subscribes s"
  "running (decode_and_store key sl b s) = running s"
  by (simp_all add: decode_and_store_def update_data_def split: option.splits)

lemma merge_result_idem:
  "merge_result d sl b (merge_result d sl b c) = merge_result d sl b c"
  by (simp add: merge_result_def split: option.splits)

lemma fan_out_decode_map [simp]:
  "decode_map (fold (\<lambda>oid. decode_and_store oid sl b) ids s) = decode_map s"
  by (induction ids arbitrary: s) simp_all

lemma fan_out_cached:
  "get_opt (data_map (fold (\<lambda>oid. decode_and_store oid sl b) ids s)) k =
     (if k \<in> set ids
      then merge_result (dict_get (decode_map s) k) sl b (get_opt (data_map s) k)
      else get_opt (data_map s) k)"
proof (induction ids arbitrary: s)
  case Nil
  then show ?case by simp
next
  case (Cons oid ids)
  show ?case
    by (simp add: Cons.IH decode_and_store_cached merge_result_idem)
qed

lemma fan_out_frame:
  "subscription_map (fold (\<lambda>oid. decode_and_store oid sl b) ids s) = subscription_map s"
  "pubkey_to_subscription (fold (\<lambda>oid. decode_and_store oid sl b) ids s) = pubkey_to_subscription s"
  "pubkey_to_oracle_ids (fold (\<lambda>oid. decode_and_store oid sl b) ids s) = pubkey_to_oracle_ids s"
  "oracle_id_to_subscription (fold (\<lambda>oid. decode_and_store oid sl b) ids s) = oracle_id_to_subscription s"
  "request_id_counter (fold (\<lambda>oid. decode_and_store oid sl b) ids s) = request_id_counter s"
  "inflight_subscribes (fold (\<lambda>oid. decode_and_store oid sl b) ids s) = inflight_subscribes s"
  "pending_subscriptions (fold (\<lambda>oid. decode_and_store oid sl b) ids s) = pending_subscriptions s"
  by (induction ids arbitrary: s) (simp_all add: decode_and_store_frame)

text \<open>
  C2 (as the code has it). A notification whose subscription id is mapped to an address
  logs nothing and changes no decoder. When the address has synthetic keys, the cached value
  of each of them becomes what the slot rule makes of the payload decoded with that key's own
  decoder, and the cached value of every other key, the address's own string key included,
  stays as it was. When the address has no synthetic key, the same holds with the address's
  own string key as the only key served. A key whose decoder raises keeps its cached value,
  whatever happens to the other keys; a decoded value replaces the cached one exactly when
  nothing is cached or the cached slot is not larger.
\<close>

theorem notify_fan_out:
  assumes "dict_get (subscription_map s) sid = Some pubkey"
  shows "fst (notify (Some sid) sl b s) = []
     \<and> decode_map (snd (notify (Some sid) sl b s)) = decode_map s
     \<and> (oracle_ids_of s pubkey \<noteq> [] \<longrightarrow>
          (\<forall>k. get_opt (data_map (snd (notify (Some sid) sl b s))) k =
             (if k \<in> set (oracle_ids_of s pubkey)
              then merge_result (dict_get (decode_map s) k) sl b (get_opt (data_map s) k)
              else get_opt (data_map s) k)))
     \<and> (oracle_ids_of s pubkey = [] \<longrightarrow>
          (\<forall>k. get_opt (data_map (snd (notify (Some sid) sl b s))) k =
             (if k = str pubkey
              then merge_result (dict_get (decode_map s) k) sl b (get_opt (data_map s) k)
              else get_opt (data_map s) k)))
     \<and> (\<forall>f c. f b = None \<longrightarrow> merge_result (Some f) sl b c = c)
     \<and> (\<forall>f v c. f b = Some v \<longrightarrow>
          merge_result (Some f) (Some n) b c =
            (case c of None \<Rightarrow> Some \<lparr>slot = n, data = v\<rparr>
             | Some cur \<Rightarrow> if slot cur \<le> n then Some \<lparr>slot = n, data = v\<rparr> else Some cur))"
proof -
  have "\<forall>f c. f b = None \<longrightarrow> merge_result (Some f) sl b c = c"
    by (simp add: merge_result_def split: option.splits)
  moreover have "\<forall>f v c. f b = Some v \<longrightarrow>
          merge_result (Some f) (Some n) b c =
            (case c of None \<Rightarrow> Some \<lparr>slot = n, data = v\<rparr>
             | Some cur \<Rightarrow> if slot cur \<le> n then Some \<lparr>slot = n, data = v\<rparr> else Some cur)"
    by (simp add: merge_result_def)
  moreover have "fst (notify (Some sid) sl b s) = []"
    using assms by (simp add: notify_def Let_def)
  moreover have "decode_map (snd (notify (Some sid) sl b s)) = decode_map s"
    using assms by (simp add: notify_def Let_def)
  moreover have "oracle_ids_of s pubkey \<noteq> [] \<longrightarrow>
          (\<forall>k. get_opt (data_map (snd (notify (Some sid) sl b s))) k =
             (if k \<in> set (oracle_ids_of s pubkey)
              then merge_result (dict_get (decode_map s) k) sl b (get_opt (data_map s) k)
              else get_opt (data_map s) k))"
    using assms by (simp add: notify_def Let_def fan_out_cached)
  moreover have "oracle_ids_of s pubkey = [] \<longrightarrow>
          (\<forall>k. get_opt (data_map (snd (notify (Some sid) sl b s))) k =
             (if k = str pubkey
              then merge_result (dict_get (decode_map s) k) sl b (get_opt (data_map s) k)
              else get_opt (data_map s) k))"
    using assms by (simp add: notify_def Let_def decode_and_store_cached)
  ultimately show ?thesis by blast
qed

theorem notify_fan_out_witness:
  "dict_get (subscription_map fan_out_example) 42 = Some (Pubkey ''A'')
   \<and> oracle_ids_of fan_out_example (Pubkey ''A'') = [''A-1'', ''A-2'']
   \<and> garbled_decode ''Q'' = None
   \<and> example_decode ''Q'' = Some ''Q''
   \<and> get_opt (data_map (snd (notify (Some 42) (Some 100) ''Q'' fan_out_example))) ''A-1''
       = Some \<lparr>slot = 2, data = ''y''\<rparr>
   \<and> get_opt (data_map (snd (notify (Some 42) (Some 100) ''Q'' fan_out_example))) ''A-2''
       = Some \<lparr>slot = 100, data = ''Q''\<rparr>
   \<and> get_opt (data_map (snd (notify (Some 42) (Some 100) ''Q'' fan_out_example))) ''A''
       = Some \<lparr>slot = 1, data = ''x''\<rparr>
   \<and> dict_get (subscription_map closing_example) 42 = Some (Pubkey ''A'')
   \<and> oracle_ids_of closing_example (Pubkey ''A'') = []
   \<and> get_opt (data_map (snd (notify (Some 42) (Some 100) ''Q'' closing_example))) ''A''
       = Some \<lparr>slot = 100, data = ''Q''\<rparr>
   \<and> get_opt (data_map (snd (notify (Some 42) (Some 100) ''Q'' closing_example))) ''B''
       = Some \<lparr>slot = 1, data = ''y''\<rparr>"
proof -
  have h: "dict_get (subscription_map fan_out_example) 42 = Some (Pubkey ''A'')"
    by (simp add: fan_out_example_def three_keys_example_def two_keys_example_def init_def
        dict_get_def)
  have ids: "oracle_ids_of fan_out_example (Pubkey ''A'') = [''A-1'', ''A-2'']"
    by (simp add: fan_out_example_def three_keys_example_def two_keys_example_def init_def
        oracle_ids_of_def dict_get_def)
  have c: "get_opt (data_map (snd (notify (Some 42) (Some 100) ''Q'' fan_out_example))) k =
             (if k \<in> set [''A-1'', ''A-2'']
              then merge_result (dict_get (decode_map fan_out_example) k) (Some 100) ''Q''
                     (get_opt (data_map fan_out_example) k)
              else get_opt (data_map fan_out_example) k)" for k
  proof -
    have "oracle_ids_of fan_out_example (Pubkey ''A'') \<noteq> []" using ids by simp
    with notify_fan_out [OF h, of "Some 100" "''Q''" 100] show ?thesis
      unfolding ids by blast
  qed
  have h': "dict_get (subscription_map closing_example) 42 = Some (Pubkey ''A'')"
    by (simp add: closing_example_def init_def dict_get_def)
  have ids': "oracle_ids_of closing_example (Pubkey ''A'') = []"
    by (simp add: closing_example_def init_def oracle_ids_of_def dict_get_def)
  have c': "get_opt (data_map (snd (notify (Some 42) (Some 100) ''Q'' closing_example))) k =
             (if k = str (Pubkey ''A'')
              then merge_result (dict_get (decode_map closing_example) k) (Some 100) ''Q''
                     (get_opt (data_map closing_example) k)
              else get_opt (data_map closing_example) k)" for k
    using notify_fan_out [OF h', of "Some 100" "''Q''" 100] ids' by blast
  show ?thesis
    using h ids c [of "''A-1''"] c [of "''A-2''"] c [of "''A''"]
      h' ids' c' [of "''A''"] c' [of "''B''"]
    by (simp add: fan_out_example_def three_keys_example_def two_keys_example_def
        closing_example_def init_def oracle_ids_of_def example_decode_def
        garbled_decode_def merge_result_def dict_get_def get_opt_def)
qed

text \<open>
  C2 as the specification words it fails where the address has its own string key
  beside a synthetic key: the notification at slot 100 reaches the synthetic key only, and
  the string key keeps slot 1 although it has a decoder that accepts the payload.
\<close>

theorem notify_fan_out_counterexample:
  "dict_get (subscription_map two_keys_example) 42 = Some (Pubkey ''A'')
   \<and> dict_get (decode_map two_keys_example) (str (Pubkey ''A'')) = Some example_decode
   \<and> get_opt (data_map two_keys_example) (str (Pubkey ''A'')) = Some \<lparr>slot = 1, data = ''x''\<rparr>
   \<and> get_opt (data_map (snd (notify (Some 42) (Some 100) ''Q'' two_keys_example)))
        (str (Pubkey ''A'')) = Some \<lparr>slot = 1, data = ''x''\<rparr>
   \<and> get_opt (data_map (snd (notify (Some 42) (Some 100) ''Q'' two_keys_example))) ''A-1''
        = Some \<lparr>slot = 100, data = ''Q''\<rparr>"
  by (simp add: notify_def decode_and_store_def update_data_def Let_def oracle_ids_of_def
      two_keys_example_def init_def example_decode_def dict_get_def get_opt_def dict_set_def)

section \<open>Shutdown\<close>

lemma cancel_task_running:
  "\<not> running s \<Longrightarrow> \<not> running (snd (cancel_task p s))"
  by (cases p)
    (simp_all add: cancel_task_def after_outer_def leave_message_loop_def
      message_loop_except_def connection_except_def task_except_def clear_connection_maps_def)

lemma unsubscribe_completed:
  assumes "fst (unsubscribe te s) = None"
  shows "snd (snd (unsubscribe te s)) = init"
proof -
  define s1 where "s1 = s\<lparr>running := False\<rparr>"
  define r where "r = (if task s1
                 then (case te of TaskCancelled p \<Rightarrow> cancel_task p s1 | _ \<Rightarrow> ([], s1))
                 else ([], s1))"
  have n: "\<not> (task s1 \<and> te = TaskFailed)"
    using assms by (auto simp: unsubscribe_def Let_def s1_def)
  have "\<not> running s1" by (simp add: s1_def)
  then have "\<not> running (snd r)"
    unfolding r_def by (cases te) (simp_all add: cancel_task_running)
  moreover have "unsubscribe te s =
      (None, (if task s1 then [CancelTask] else []) @ (if ws s1 \<noteq> None then [CloseWs] else [])
             @ fst r @ (if ws ((snd r)\<lparr>task := False\<rparr>) \<noteq> None then [CloseWs] else []),
       (snd r)\<lparr>task := False, ws := None,
          subscription_map := [], pubkey_to_subscription := [],
          decode_map := [], data_map := [], initial_data_map := [],
          pending_subscriptions := [], pubkey_to_oracle_ids := [],
          oracle_id_to_subscription := [], inflight_subscribes := [],
          request_id_counter := 0\<rparr>)"
    using n
    by (simp add: unsubscribe_def Let_def s1_def [symmetric] r_def [symmetric] case_prod_beta)
  ultimately show ?thesis
    by (cases "snd r") (simp add: init_def)
qed

lemma unsubscribe_init: "unsubscribe te (init :: 'v state) = (None, [], init)"
  by (simp add: unsubscribe_def Let_def init_def)

lemma unsubscribe_returns:
  "\<not> task s \<or> te \<noteq> TaskFailed \<Longrightarrow> fst (unsubscribe te s) = None"
  by (auto simp: unsubscribe_def Let_def split: prod.splits)

text \<open>
  C9. \<^verbatim>\<open>unsubscribe\<close> returns unless the awaited task ended with an exception
  other than a cancellation or a timeout. Whenever it returns, the subscriber is in the
  state \<^verbatim>\<open>__init__\<close> builds: no socket, no task, not running, every map and the
  pending list empty and the request-id counter zero. A further call, on that state or on a
  subscriber that was never started, returns without an exception, does nothing to the
  outside and leaves the same state, whatever the task outcome passed to it.
\<close>

theorem unsubscribe_stops:
  "(\<not> task s \<or> te \<noteq> TaskFailed \<longrightarrow> fst (unsubscribe te s) = None)
   \<and> (fst (unsubscribe te s) = None \<longrightarrow>
        snd (snd (unsubscribe te s)) = init
        \<and> unsubscribe te' (snd (snd (unsubscribe te s))) = (None, [], init))
   \<and> unsubscribe te' (init :: 'v state) = (None, [], init)
   \<and> subscription_map (init :: 'v state) = [] \<and> pubkey_to_subscription (init :: 'v state) = []
   \<and> decode_map (init :: 'v state) = [] \<and> data_map (init :: 'v state) = []
   \<and> initial_data_map (init :: 'v state) = [] \<and> pending_subscriptions (init :: 'v state) = []
   \<and> pubkey_to_oracle_ids (init :: 'v state) = []
   \<and> oracle_id_to_subscription (init :: 'v state) = []
   \<and> inflight_subscribes (init :: 'v state) = [] \<and> request_id_counter (init :: 'v state) = 0
   \<and> ws (init :: 'v state) = None \<and> \<not> task (init :: 'v state) \<and> \<not> running (init :: 'v state)"
  using unsubscribe_completed [of te s] unsubscribe_returns [of s te]
  by (simp add: unsubscribe_init) (simp add: init_def)

theorem unsubscribe_stops_witness:
  "TaskCancelled InRecv \<noteq> TaskFailed
   \<and> unsubscribe (TaskCancelled InRecv) two_keys_example =
       (None,
        [CancelTask, CloseWs, LogInfo CancelledInRecv, LogInfo CancelledInLoop,
         LogInfo CancelledInConnection, CloseWs, LogInfo CancelledTask],
        init)
   \<and> unsubscribe TaskTimedOut (snd (snd (unsubscribe (TaskCancelled InRecv) two_keys_example)))
       = (None, [], init)"
  using unsubscribe_stops [of two_keys_example "TaskCancelled InRecv" TaskTimedOut]
  by (simp add: unsubscribe_def cancel_task_def after_outer_def leave_message_loop_def
      message_loop_except_def connection_except_def task_except_def
      clear_connection_maps_def Let_def two_keys_example_def init_def)

section \<open>Request ids, confirmations and the end of a connection\<close>

lemmas eval_defs = step_def run.simps add_account_def add_account_register_def add_account_fetch_def
  add_account_subscribe_def on_connected_def subscribe_one_def read_iteration_def
  process_message_def confirm_def request_id_of_def notify_def leave_message_loop_def
  after_outer_def message_loop_except_def connection_except_def task_except_def
  clear_connection_maps_def subscribe_def task_start_def key_of_def oracle_ids_of_def
  key_pubkey_def example_isdigit_def last_segment_def before_last_dash_def
  Let_def dict_get_def dict_has_def dict_set_def dict_del_def dict_keys_def get_opt_def
  init_def example_from_string_def example_to_int_def always_sent_def example_decode_def

lemma closing_example_reached:
  "snd (run example_from_string example_isdigit example_to_int closing_history init) = closing_example"
  by (simp add: closing_history_def closing_example_def eval_defs)

text \<open>
  C8. The read loop meets a closed connection at \<^verbatim>\<open>raw_ws.recv()\<close>, inside the
  \<^verbatim>\<open>try\<close> of line 276: the handler of lines 344-347 logs and leaves the loop, the
  \<^verbatim>\<open>async with\<close> block ends and the outer loop reconnects. Nothing is cleared: the
  subscription map, the address map and the in-flight set are as before, so the next
  connection sends no subscribe frame for the address \<open>A\<close> it still holds as subscribed.
  The handler of lines 481-490, for a connection that closes while it is being opened,
  clears the three maps.
\<close>

theorem recv_connection_closed_keeps_maps:
  "message_loop example_to_int [RecvTimeout, RecvConnectionClosed] closing_example
     = (Break, [LogInfo ConnectionClosedDuringRecv], closing_example)
   \<and> leave_message_loop None closing_example = (Continue, [], closing_example)
   \<and> step example_from_string example_isdigit example_to_int (EvRecv RecvConnectionClosed) closing_example
     = ([LogInfo ConnectionClosedDuringRecv], closing_example)
   \<and> subscription_map closing_example = [(42, Pubkey ''A'')]
   \<and> pubkey_to_subscription closing_example = [(Pubkey ''A'', 42)]
   \<and> inflight_subscribes closing_example = [(2, Pubkey ''B'', None)]
   \<and> fst (step example_from_string example_isdigit example_to_int (EvConnected 1 always_sent) closing_example)
       = [SendSubscribe 3 (Pubkey ''B'')]
   \<and> snd (step example_from_string example_isdigit example_to_int (EvConnectRaises ConnectionClosed)
        closing_example)
       = closing_example\<lparr>ws := None, subscription_map := [], pubkey_to_subscription := [],
                          inflight_subscribes := []\<rparr>"
  by (simp add: closing_example_def eval_defs)

text \<open>
  C6. After the same close the counter keeps its value and the in-flight entry of request
  id 2 is still there. On the next connection a confirmation that carries the old id 2 is
  matched with that entry: it is logged as confirmed and recorded as the subscription of
  \<open>B\<close>, not dropped with a warning.
\<close>

theorem late_confirmation_after_recv_close:
  "request_id_counter (snd (step example_from_string example_isdigit example_to_int
      (EvRecv RecvConnectionClosed) closing_example)) = 2
   \<and> dict_get (inflight_subscribes (snd (step example_from_string example_isdigit example_to_int
        (EvRecv RecvConnectionClosed) closing_example))) 2 = Some (Pubkey ''B'', None)
   \<and> fst (step example_from_string example_isdigit example_to_int
        (EvRecv (Received (Confirmation 77 (Some (IdInt 2)))))
        (snd (run example_from_string example_isdigit example_to_int
           [EvRecv RecvConnectionClosed, EvConnected 1 always_sent] closing_example)))
       = [LogDebug (SubscriptionConfirmed 2 77 (Pubkey ''B''))]
   \<and> dict_get (pubkey_to_subscription (snd (step example_from_string example_isdigit example_to_int
        (EvRecv (Received (Confirmation 77 (Some (IdInt 2)))))
        (snd (run example_from_string example_isdigit example_to_int
           [EvRecv RecvConnectionClosed, EvConnected 1 always_sent] closing_example)))))
        (Pubkey ''B'') = Some 77"
  by (simp add: closing_example_def eval_defs)

text \<open>
  C7. One subscribe request, for address \<open>A\<close> under request id 1, is sent and not yet
  confirmed. A confirmation without an id, and one with an id that is not in flight, is
  answered with the warning for an empty pending list and changes nothing: address
  \<open>A\<close> gets no subscription id. No statement of the class appends to
  \<^verbatim>\<open>pending_subscriptions\<close>, the list the fallback of lines 400-405 pops from.
\<close>

theorem confirmation_without_id_not_matched:
  "inflight_subscribes unconfirmed_example = [(1, Pubkey ''A'', None)]
   \<and> pending_subscriptions unconfirmed_example = []
   \<and> process_message example_to_int (Confirmation 42 None) unconfirmed_example
       = ([LogWarning NoPendingSubscriptions], unconfirmed_example)
   \<and> process_message example_to_int (Confirmation 42 (Some (IdInt 9))) unconfirmed_example
       = ([LogWarning NoPendingSubscriptions], unconfirmed_example)
   \<and> dict_get (pubkey_to_subscription unconfirmed_example) (Pubkey ''A'') = None"
  by (simp add: unconfirmed_example_def connected_example_def eval_defs)

lemma sent_ids_append: "sent_ids (es @ es') = sent_ids es @ sent_ids es'"
  by (induction es rule: sent_ids.induct) simp_all

lemma fresh_ids_Nil: "fresh_ids c [] c"
  by (simp add: fresh_ids_def)

lemma fresh_ids_no_send: "sent_ids es = [] \<Longrightarrow> c \<le> c' \<Longrightarrow> fresh_ids c es c'"
  by (simp add: fresh_ids_def)

lemma fresh_ids_append:
  assumes "fresh_ids c es c'" and "fresh_ids c' es' c''"
  shows "fresh_ids c (es @ es') c''"
  using assms
  by (fastforce simp: fresh_ids_def sent_ids_append sorted_wrt_append list_all_iff)

lemma subscribe_one_fresh:
  "fresh_ids (request_id_counter s) (fst (subscribe_one send_ok pubkey oracle_id s))
     (request_id_counter (snd (subscribe_one send_ok pubkey oracle_id s)))"
  by (simp add: subscribe_one_def Let_def fresh_ids_def)

lemma subscribe_one_pending:
  "pending_subscriptions (snd (subscribe_one send_ok pubkey oracle_id s)) = pending_subscriptions s"
  by (simp add: subscribe_one_def Let_def)

lemma subscribe_all_fresh:
  "fresh_ids (request_id_counter s) (fst (subscribe_all send_ok accounts s))
     (request_id_counter (snd (subscribe_all send_ok accounts s)))"
proof (induction accounts arbitrary: s)
  case Nil
  then show ?case by (simp add: fresh_ids_Nil)
next
  case (Cons a accounts)
  obtain pubkey key where a: "a = (pubkey, key)" by (cases a)
  let ?o = "if key \<noteq> str pubkey then Some key else None"
  obtain es s1 where one: "subscribe_one send_ok pubkey ?o s = (es, s1)"
    by (cases "subscribe_one send_ok pubkey ?o s")
  have "fresh_ids (request_id_counter s) es (request_id_counter s1)"
    using subscribe_one_fresh [of s send_ok pubkey ?o] one by simp
  from fresh_ids_append [OF this Cons.IH [of s1]]
  show ?case using a one by (simp add: case_prod_beta)
qed

lemma subscribe_all_pending:
  "pending_subscriptions (snd (subscribe_all send_ok accounts s)) = pending_subscriptions s"
proof (induction accounts arbitrary: s)
  case Nil
  then show ?case by simp
next
  case (Cons a accounts)
  obtain pubkey key where a: "a = (pubkey, key)" by (cases a)
  let ?o = "if key \<noteq> str pubkey then Some key else None"
  obtain es s1 where one: "subscribe_one send_ok pubkey ?o s = (es, s1)"
    by (cases "subscribe_one send_ok pubkey ?o s")
  have "pending_subscriptions s1 = pending_subscriptions s"
    using subscribe_one_pending [of send_ok pubkey ?o s] one by simp
  then show ?case using a one Cons.IH [of s1] by (simp add: case_prod_beta)
qed

lemma add_account_register_frame:
  "request_id_counter (snd (add_account_register pubkey decode_fn initial_data oracle_id s))
     = request_id_counter s"
  "pending_subscriptions (snd (add_account_register pubkey decode_fn initial_data oracle_id s))
     = pending_subscriptions s"
  by (simp_all add: add_account_register_def add_oracle_id_def Let_def split: option.splits)

lemma add_account_fetch_frame:
  "request_id_counter (snd (snd (add_account_fetch pubkey key initial_data fetch s)))
     = request_id_counter s"
  "pending_subscriptions (snd (snd (add_account_fetch pubkey key initial_data fetch s)))
     = pending_subscriptions s"
  "sent_ids (fst (snd (add_account_fetch pubkey key initial_data fetch s))) = []"
  by (simp_all add: add_account_fetch_def split: option.splits outcome.splits)

lemma add_account_subscribe_fresh:
  "fresh_ids (request_id_counter s) (fst (add_account_subscribe pubkey oracle_id send_ok s))
     (request_id_counter (snd (add_account_subscribe pubkey oracle_id send_ok s)))"
  by (simp add: add_account_subscribe_def Let_def fresh_ids_def)

lemma add_account_subscribe_pending:
  "pending_subscriptions (snd (add_account_subscribe pubkey oracle_id send_ok s))
     = pending_subscriptions s"
  by (simp add: add_account_subscribe_def Let_def)

lemma add_account_fresh:
  "fresh_ids (request_id_counter s)
     (fst (add_account pubkey decode_fn initial_data oracle_id fetch send_ok s))
     (request_id_counter (snd (add_account pubkey decode_fn initial_data oracle_id fetch send_ok s)))"
proof -
  obtain r s1 where reg: "add_account_register pubkey decode_fn initial_data oracle_id s = (r, s1)"
    by (cases "add_account_register pubkey decode_fn initial_data oracle_id s")
  have c1: "request_id_counter s1 = request_id_counter s"
    using add_account_register_frame(1) [of pubkey decode_fn initial_data oracle_id s] reg by simp
  show ?thesis
  proof (cases r)
    case None
    then show ?thesis using reg c1 by (simp add: add_account_def fresh_ids_Nil)
  next
    case (Some d)
    obtain go es s2 where f: "add_account_fetch pubkey (key_of pubkey oracle_id) d fetch s1 = (go, es, s2)"
      by (cases "add_account_fetch pubkey (key_of pubkey oracle_id) d fetch s1")
    have c2: "request_id_counter s2 = request_id_counter s" and n: "sent_ids es = []"
      using add_account_fetch_frame(1,3) [of pubkey "key_of pubkey oracle_id" d fetch s1] f c1
      by simp_all
    have fr: "fresh_ids (request_id_counter s) es (request_id_counter s2)"
      using n c2 by (simp add: fresh_ids_no_send)
    show ?thesis
    proof (cases go)
      case False
      then show ?thesis using reg Some f fr by (simp add: add_account_def)
    next
      case True
      from fresh_ids_append [OF fr add_account_subscribe_fresh [of s2 pubkey oracle_id send_ok]]
      show ?thesis using reg Some f True by (simp add: add_account_def case_prod_beta)
    qed
  qed
qed

lemma add_account_pending:
  "pending_subscriptions (snd (add_account pubkey decode_fn initial_data oracle_id fetch send_ok s))
     = pending_subscriptions s"
proof -
  obtain r s1 where reg: "add_account_register pubkey decode_fn initial_data oracle_id s = (r, s1)"
    by (cases "add_account_register pubkey decode_fn initial_data oracle_id s")
  have p1: "pending_subscriptions s1 = pending_subscriptions s"
    using add_account_register_frame(2) [of pubkey decode_fn initial_data oracle_id s] reg by simp
  show ?thesis
  proof (cases r)
    case None
    then show ?thesis using reg p1 by (simp add: add_account_def)
  next
    case (Some d)
    obtain go es s2 where f: "add_account_fetch pubkey (key_of pubkey oracle_id) d fetch s1 = (go, es, s2)"
      by (cases "add_account_fetch pubkey (key_of pubkey oracle_id) d fetch s1")
    have p2: "pending_subscriptions s2 = pending_subscriptions s"
      using add_account_fetch_frame(2) [of pubkey "key_of pubkey oracle_id" d fetch s1] f p1
      by simp
    show ?thesis
      using reg Some f p2 add_account_subscribe_pending [of pubkey oracle_id send_ok s2]
      by (cases go) (simp_all add: add_account_def case_prod_beta)
  qed
qed

lemma fold_forget_frame:
  "request_id_counter (fold forget_oracle_id ids s) = request_id_counter s"
  "pending_subscriptions (fold forget_oracle_id ids s) = pending_subscriptions s"
  by (induction ids arbitrary: s) (simp_all add: forget_oracle_id_def)

lemma remove_account_teardown_frame:
  "request_id_counter (snd (snd (remove_account_teardown pubkey s))) = request_id_counter s"
  "pending_subscriptions (snd (snd (remove_account_teardown pubkey s))) = pending_subscriptions s"
  "sent_ids (fst (snd (remove_account_teardown pubkey s))) = []"
  by (simp_all add: remove_account_teardown_def Let_def split: option.splits)

lemma remove_account_frame:
  "request_id_counter (snd (snd (remove_account pubkey oracle_id s))) = request_id_counter s"
  "pending_subscriptions (snd (snd (remove_account pubkey oracle_id s))) = pending_subscriptions s"
  "sent_ids (fst (snd (remove_account pubkey oracle_id s))) = []"
  by (simp_all add: remove_account_def Let_def remove_account_teardown_frame fold_forget_frame
      forget_oracle_id_def split: option.splits)

lemma get_data_frame:
  "snd (snd (get_data first_of key s)) = s" "sent_ids (fst (snd (get_data first_of key s))) = []"
  by (cases key; simp add: get_data_def Let_def split: option.splits list.splits)+

lemma on_connected_fresh:
  "fresh_ids (request_id_counter s) (fst (snd (on_connected from_string isdigit send_ok n s)))
     (request_id_counter (snd (snd (on_connected from_string isdigit send_ok n s))))"
  using subscribe_all_fresh [of "s\<lparr>ws := Some n\<rparr>" send_ok]
  by (simp add: on_connected_def Let_def case_prod_beta fresh_ids_Nil)

lemma on_connected_pending:
  "pending_subscriptions (snd (snd (on_connected from_string isdigit send_ok n s)))
     = pending_subscriptions s"
  by (simp add: on_connected_def Let_def case_prod_beta subscribe_all_pending)

lemma confirm_frame:
  "request_id_counter (snd (confirm to_int result mid s)) = request_id_counter s"
  "sent_ids (fst (confirm to_int result mid s)) = []"
  "pending_subscriptions s = [] \<Longrightarrow> pending_subscriptions (snd (confirm to_int result mid s)) = []"
  by (simp_all add: confirm_def request_id_of_def sent_ids_append
      split: option.splits msg_id.splits list.splits prod.splits)

lemma notify_frame:
  "request_id_counter (snd (notify sid sl b s)) = request_id_counter s"
  "sent_ids (fst (notify sid sl b s)) = []"
  "pending_subscriptions (snd (notify sid sl b s)) = pending_subscriptions s"
  by (simp_all add: notify_def Let_def fan_out_frame decode_and_store_frame split: option.splits)

lemma process_message_frame:
  "request_id_counter (snd (process_message to_int m s)) = request_id_counter s"
  "sent_ids (fst (process_message to_int m s)) = []"
  "pending_subscriptions s = [] \<Longrightarrow> pending_subscriptions (snd (process_message to_int m s)) = []"
  by (cases m; simp add: process_message_def confirm_frame notify_frame)+

lemma read_iteration_frame:
  "request_id_counter (snd (snd (read_iteration to_int r s))) = request_id_counter s"
  "sent_ids (fst (snd (read_iteration to_int r s))) = []"
  "pending_subscriptions s = [] \<Longrightarrow>
     pending_subscriptions (snd (snd (read_iteration to_int r s))) = []"
  by (cases r; simp add: read_iteration_def case_prod_beta process_message_frame)+

lemma connection_except_frame:
  "request_id_counter (snd (snd (connection_except e s))) = request_id_counter s"
  "sent_ids (fst (snd (connection_except e s))) = []"
  "pending_subscriptions (snd (snd (connection_except e s))) = pending_subscriptions s"
  by (cases e; simp add: connection_except_def clear_connection_maps_def)+

lemma message_loop_except_frame:
  "request_id_counter (snd (snd (message_loop_except e s))) = request_id_counter s"
  "sent_ids (fst (snd (message_loop_except e s))) = []"
  "pending_subscriptions (snd (snd (message_loop_except e s))) = pending_subscriptions s"
  by (cases e; simp add: message_loop_except_def clear_connection_maps_def)+

lemma task_except_frame:
  "request_id_counter (snd (task_except s)) = request_id_counter s"
  "sent_ids (fst (task_except s)) = []"
  "pending_subscriptions (snd (task_except s)) = pending_subscriptions s"
  by (simp_all add: task_except_def clear_connection_maps_def)

lemma after_outer_frame:
  "request_id_counter (snd (after_outer (c, es, s))) = request_id_counter s"
  "sent_ids (fst (after_outer (c, es, s))) = sent_ids es"
  "pending_subscriptions (snd (after_outer (c, es, s))) = pending_subscriptions s"
  by (cases c; simp add: after_outer_def case_prod_beta task_except_frame sent_ids_append)+

lemma leave_message_loop_frame:
  "request_id_counter (snd (snd (leave_message_loop e s))) = request_id_counter s"
  "sent_ids (fst (snd (leave_message_loop e s))) = []"
  "pending_subscriptions (snd (snd (leave_message_loop e s))) = pending_subscriptions s"
proof -
  show "request_id_counter (snd (snd (leave_message_loop e s))) = request_id_counter s"
  proof (cases e)
    case None
    then show ?thesis by (simp add: leave_message_loop_def)
  next
    case (Some x)
    obtain c es s1 where m: "message_loop_except x s = (c, es, s1)"
      by (cases "message_loop_except x s")
    have "request_id_counter s1 = request_id_counter s"
      using message_loop_except_frame(1) [of x s] m by simp
    then show ?thesis
      using Some m
      by (cases c) (simp_all add: leave_message_loop_def case_prod_beta connection_except_frame)
  qed
  show "sent_ids (fst (snd (leave_message_loop e s))) = []"
  proof (cases e)
    case None
    then show ?thesis by (simp add: leave_message_loop_def)
  next
    case (Some x)
    obtain c es s1 where m: "message_loop_except x s = (c, es, s1)"
      by (cases "message_loop_except x s")
    have "sent_ids es = []"
      using message_loop_except_frame(2) [of x s] m by simp
    then show ?thesis
      using Some m
      by (cases c)
        (simp_all add: leave_message_loop_def case_prod_beta connection_except_frame
          sent_ids_append)
  qed
  show "pending_subscriptions (snd (snd (leave_message_loop e s))) = pending_subscriptions s"
  proof (cases e)
    case None
    then show ?thesis by (simp add: leave_message_loop_def)
  next
    case (Some x)
    obtain c es s1 where m: "message_loop_except x s = (c, es, s1)"
      by (cases "message_loop_except x s")
    have "pending_subscriptions s1 = pending_subscriptions s"
      using message_loop_except_frame(3) [of x s] m by simp
    then show ?thesis
      using Some m
      by (cases c) (simp_all add: leave_message_loop_def case_prod_beta connection_except_frame)
  qed
qed

lemma unsubscribe_pending:
  "pending_subscriptions s = [] \<Longrightarrow> pending_subscriptions (snd (snd (unsubscribe te s))) = []"
  by (simp add: unsubscribe_def Let_def case_prod_beta)

lemma step_recv_frame:
  "request_id_counter (snd (step from_string isdigit to_int (EvRecv r) s)) = request_id_counter s"
  "sent_ids (fst (step from_string isdigit to_int (EvRecv r) s)) = []"
  "pending_subscriptions s = [] \<Longrightarrow>
     pending_subscriptions (snd (step from_string isdigit to_int (EvRecv r) s)) = []"
proof -
  obtain c es s1 where it: "read_iteration to_int r s = (c, es, s1)"
    by (cases "read_iteration to_int r s")
  have f: "request_id_counter s1 = request_id_counter s" "sent_ids es = []"
    using read_iteration_frame(1,2) [of to_int r s] it by simp_all
  have p: "pending_subscriptions s = [] \<Longrightarrow> pending_subscriptions s1 = []"
    using read_iteration_frame(3) [of s to_int r] it by simp
  have a: "request_id_counter (snd (after_outer (leave_message_loop e s1))) = request_id_counter s"
    "sent_ids (fst (after_outer (leave_message_loop e s1))) = []"
    "pending_subscriptions (snd (after_outer (leave_message_loop e s1))) = pending_subscriptions s1"
    for e
    using after_outer_frame [of "fst (leave_message_loop e s1)"
        "fst (snd (leave_message_loop e s1))" "snd (snd (leave_message_loop e s1))"]
      leave_message_loop_frame [of e s1] f
    by simp_all
  show "request_id_counter (snd (step from_string isdigit to_int (EvRecv r) s)) = request_id_counter s"
    using it f a by (cases c) (simp_all add: step_def case_prod_beta)
  show "sent_ids (fst (step from_string isdigit to_int (EvRecv r) s)) = []"
    using it f a by (cases c) (simp_all add: step_def case_prod_beta sent_ids_append)
  show "pending_subscriptions (snd (step from_string isdigit to_int (EvRecv r) s)) = []"
    if "pending_subscriptions s = []"
    using it p [OF that] a by (cases c) (simp_all add: step_def case_prod_beta)
qed

text \<open>
  Every event but \<^verbatim>\<open>unsubscribe\<close> leaves the counter where it was or moves it up, and
  the request ids it sends are new.
\<close>

lemma step_fresh:
  assumes "\<not> is_unsubscribe ev"
  shows "fresh_ids (request_id_counter s) (fst (step from_string isdigit to_int ev s))
           (request_id_counter (snd (step from_string isdigit to_int ev s)))"
proof (cases ev)
  case (EvAddAccount pubkey decode_fn initial_data oracle_id fetch send_ok)
  then show ?thesis
    using add_account_fresh [of s pubkey decode_fn initial_data oracle_id fetch send_ok]
    by (simp add: step_def)
next
  case (EvRemoveAccount pubkey oracle_id)
  then show ?thesis
    by (simp add: step_def case_prod_beta remove_account_frame fresh_ids_no_send)
next
  case (EvGetData key)
  then show ?thesis
    by (simp add: step_def case_prod_beta get_data_frame fresh_ids_no_send)
next
  case EvSubscribe
  then show ?thesis by (simp add: step_def subscribe_def fresh_ids_Nil)
next
  case EvTaskStart
  then show ?thesis by (simp add: step_def task_start_def fresh_ids_Nil)
next
  case (EvConnected n send_ok)
  then show ?thesis
    using on_connected_fresh [of s from_string isdigit send_ok n]
    by (simp add: step_def case_prod_beta)
next
  case (EvConnectRaises e)
  then show ?thesis
    using after_outer_frame(1,2) [of "fst (connection_except e s)"
        "fst (snd (connection_except e s))" "snd (snd (connection_except e s))"]
    by (simp add: step_def connection_except_frame fresh_ids_no_send)
next
  case (EvRecv r)
  then show ?thesis by (simp add: step_recv_frame fresh_ids_no_send)
next
  case (EvUnsubscribe te)
  then show ?thesis using assms by (simp add: is_unsubscribe_def)
qed

lemma step_pending:
  assumes "pending_subscriptions s = []"
  shows "pending_subscriptions (snd (step from_string isdigit to_int ev s)) = []"
proof (cases ev)
  case (EvAddAccount pubkey decode_fn initial_data oracle_id fetch send_ok)
  then show ?thesis using assms by (simp add: step_def add_account_pending)
next
  case (EvRemoveAccount pubkey oracle_id)
  then show ?thesis using assms by (simp add: step_def case_prod_beta remove_account_frame)
next
  case (EvGetData key)
  then show ?thesis using assms by (simp add: step_def case_prod_beta get_data_frame)
next
  case EvSubscribe
  then show ?thesis using assms by (simp add: step_def subscribe_def)
next
  case EvTaskStart
  then show ?thesis using assms by (simp add: step_def task_start_def)
next
  case (EvConnected n send_ok)
  then show ?thesis using assms by (simp add: step_def case_prod_beta on_connected_pending)
next
  case (EvConnectRaises e)
  then show ?thesis
    using assms after_outer_frame(3) [of "fst (connection_except e s)"
        "fst (snd (connection_except e s))" "snd (snd (connection_except e s))"]
    by (simp add: step_def connection_except_frame)
next
  case (EvRecv r)
  then show ?thesis using assms by (simp add: step_recv_frame)
next
  case (EvUnsubscribe te)
  then show ?thesis using assms by (simp add: step_def case_prod_beta unsubscribe_pending)
qed

lemma run_fresh:
  assumes "list_all (\<lambda>ev. \<not> is_unsubscribe ev) evs"
  shows "fresh_ids (request_id_counter s) (fst (run from_string isdigit to_int evs s))
           (request_id_counter (snd (run from_string isdigit to_int evs s)))"
  using assms
proof (induction evs arbitrary: s)
  case Nil
  then show ?case by (simp add: fresh_ids_Nil)
next
  case (Cons ev evs)
  then have h: "\<not> is_unsubscribe ev" and t: "list_all (\<lambda>ev. \<not> is_unsubscribe ev) evs"
    by simp_all
  from fresh_ids_append [OF step_fresh [OF h, of s from_string isdigit to_int]
      Cons.IH [OF t, of "snd (step from_string isdigit to_int ev s)"]]
  show ?case by (simp add: case_prod_beta)
qed

text \<open>The pending list stays empty, whatever happens.\<close>

lemma run_pending:
  assumes "pending_subscriptions s = []"
  shows "pending_subscriptions (snd (run from_string isdigit to_int evs s)) = []"
  using assms
proof (induction evs arbitrary: s)
  case Nil
  then show ?case by simp
next
  case (Cons ev evs)
  from Cons.IH [OF step_pending [OF Cons.prems, of from_string isdigit to_int ev]]
  show ?case by (simp add: case_prod_beta)
qed

lemma confirm_without_match:
  assumes "pending_subscriptions s = []"
    and "fst (request_id_of to_int mid) = None
         \<or> (\<exists>r. fst (request_id_of to_int mid) = Some r \<and> dict_get (inflight_subscribes s) r = None)"
  shows "confirm to_int result mid s
           = (snd (request_id_of to_int mid) @ [LogWarning NoPendingSubscriptions], s)"
  using assms by (auto simp: confirm_def case_prod_beta split: option.splits)

section \<open>Further facts about the examples and the handlers\<close>

lemma two_keys_example_reached:
  "snd (run example_from_string example_isdigit example_to_int two_keys_history init) = two_keys_example"
  by (simp add: two_keys_history_def two_keys_example_def eval_defs add_oracle_id_def set_add_def)

lemma subscribed_example_reached:
  "snd (run example_from_string example_isdigit example_to_int subscribed_history init) = subscribed_example"
  by (simp add: subscribed_history_def subscribed_example_def eval_defs add_oracle_id_def
      set_add_def)

lemma recv_connection_closed_unchanged:
  "step from_string isdigit to_int (EvRecv RecvConnectionClosed) s
     = ([LogInfo ConnectionClosedDuringRecv], s)"
  by (simp add: step_def read_iteration_def leave_message_loop_def after_outer_def)

lemma handlers_clear:
  "subscription_map (snd (snd (connection_except e s))) = []"
  "pubkey_to_subscription (snd (snd (connection_except e s))) = []"
  "inflight_subscribes (snd (snd (connection_except e s))) = []"
  "request_id_counter (snd (snd (connection_except e s))) = request_id_counter s"
  "decode_map (snd (snd (connection_except e s))) = decode_map s"
  "data_map (snd (snd (connection_except e s))) = data_map s"
  by (cases e; simp add: connection_except_def clear_connection_maps_def)+

lemma message_loop_closed:
  "running s \<Longrightarrow> message_loop to_int (RecvConnectionClosed # rs) s
     = (Break, [LogInfo ConnectionClosedDuringRecv], s)"
  by (simp add: read_iteration_def)

end
